theory Spec2Isabelle
  imports Complex_Main "HOL-Library.AList" "HOL-Library.Sublist"
begin

section \<open>Python values, exceptions and results\<close>

text \<open>
  The pipeline of \<^verbatim>\<open>src/agents/pipeline.py\<close> passes metric summaries around as
  dictionaries of type \<^verbatim>\<open>Dict[str, Any]\<close> and reads them with \<^verbatim>\<open>.get(key, default)\<close>.
  A value is \<^verbatim>\<open>None\<close>, a number, a string or a dictionary. Python's \<^verbatim>\<open>int\<close> and
  \<^verbatim>\<open>float\<close> are both embedded as exact reals: every operation the analysis applies to
  them (comparison, \<^verbatim>\<open>+\<close>, \<^verbatim>\<open>*\<close>, true division, \<^verbatim>\<open>min\<close>, \<^verbatim>\<open>max\<close>) treats the two
  alike, and floating-point rounding error is outside the embedding, as is an \<^verbatim>\<open>int\<close>
  too large for a \<^verbatim>\<open>float\<close>, whose conversion raises \<^verbatim>\<open>OverflowError\<close>. A dictionary
  is an association list read with \<open>map_of\<close>.
\<close>

datatype pyexc = TypeError | AttributeError | ZeroDivisionError | IndexError | KeyError
  | CollaboratorError string

type_synonym 'a result = "pyexc + 'a"

datatype pyval = VNone | VNum real | VStr string | VDict "(string \<times> pyval) list"

type_synonym pydict = "(string \<times> pyval) list"

text \<open>\<^verbatim>\<open>str(e)\<close>, the text of an exception that follows a stage prefix in an error
  message, is the interpreter's and depends on the operands; it is a parameter \<open>str\<close>
  of the stages.\<close>

type_synonym exc_text = "pyexc \<Rightarrow> string"

definition bind_r :: "'a result \<Rightarrow> ('a \<Rightarrow> 'b result) \<Rightarrow> 'b result" where
  "bind_r m f = (case m of Inl e \<Rightarrow> Inl e | Inr v \<Rightarrow> f v)"

text \<open>\<^verbatim>\<open>d.get(k, dflt)\<close> on a value known to be a dictionary.\<close>

definition dict_get :: "pydict \<Rightarrow> string \<Rightarrow> pyval \<Rightarrow> pyval" where
  "dict_get d k dflt = (case map_of d k of None \<Rightarrow> dflt | Some v \<Rightarrow> v)"

text \<open>\<^verbatim>\<open>x.get(k, dflt)\<close> on any value: only a dictionary has the method.\<close>

definition py_get :: "pyval \<Rightarrow> string \<Rightarrow> pyval \<Rightarrow> pyval result" where
  "py_get x k dflt = (case x of VDict d \<Rightarrow> Inr (dict_get d k dflt) | _ \<Rightarrow> Inl AttributeError)"

text \<open>A value used as a number (an operand of arithmetic or of a comparison with a
  numeric literal): anything but a number ends in \<^verbatim>\<open>TypeError\<close>.\<close>

definition py_num :: "pyval \<Rightarrow> real result" where
  "py_num x = (case x of VNum r \<Rightarrow> Inr r | _ \<Rightarrow> Inl TypeError)"

definition py_gt :: "pyval \<Rightarrow> real \<Rightarrow> bool result" where
  "py_gt x c = bind_r (py_num x) (\<lambda>r. Inr (r > c))"

definition py_lt :: "pyval \<Rightarrow> real \<Rightarrow> bool result" where
  "py_lt x c = bind_r (py_num x) (\<lambda>r. Inr (r < c))"

text \<open>\<^verbatim>\<open>a / b\<close>: the operand types are checked before the divisor.\<close>

definition py_truediv :: "pyval \<Rightarrow> pyval \<Rightarrow> real result" where
  "py_truediv a b =
     bind_r (py_num a) (\<lambda>x. bind_r (py_num b) (\<lambda>y.
       if y = 0 then Inl ZeroDivisionError else Inr (x / y)))"

text \<open>\<^verbatim>\<open>x * n\<close> for an integer literal \<open>n\<close>: a number is multiplied, a string is
  repeated (and fails only when it is later used as a number), anything else raises.\<close>

definition py_mul_int :: "pyval \<Rightarrow> nat \<Rightarrow> pyval result" where
  "py_mul_int x n =
     (case x of VNum r \<Rightarrow> Inr (VNum (r * of_nat n))
      | VStr s \<Rightarrow> Inr (VStr (concat (replicate n s)))
      | _ \<Rightarrow> Inl TypeError)"

text \<open>\<^verbatim>\<open>round(x, n)\<close> on exact reals: to \<open>n\<close> decimals, ties to the even neighbour.\<close>

definition round_half_even :: "real \<Rightarrow> int" where
  "round_half_even x =
     (let f = \<lfloor>x\<rfloor>; d = x - of_int f in
      if d < 1 / 2 then f else if d > 1 / 2 then f + 1 else if even f then f else f + 1)"

definition py_round :: "real \<Rightarrow> nat \<Rightarrow> real" where
  "py_round x n = of_int (round_half_even (x * 10 ^ n)) / 10 ^ n"

text \<open>Strings: \<^verbatim>\<open>s.lower()\<close> on the ASCII messages of the program, and
  \<^verbatim>\<open>sub in s\<close>.\<close>

definition lower_char :: "char \<Rightarrow> char" where
  "lower_char c =
     (case map_of (zip ''ABCDEFGHIJKLMNOPQRSTUVWXYZ'' ''abcdefghijklmnopqrstuvwxyz'') c of
        Some l \<Rightarrow> l | None \<Rightarrow> c)"

definition lower_str :: "string \<Rightarrow> string" where
  "lower_str s = map lower_char s"

fun starts_with :: "'a list \<Rightarrow> 'a list \<Rightarrow> bool" where
  "starts_with s [] = True"
| "starts_with [] (p # ps) = False"
| "starts_with (c # cs) (p # ps) = (c = p \<and> starts_with cs ps)"

fun contains :: "'a list \<Rightarrow> 'a list \<Rightarrow> bool" where
  "contains [] sub = (sub = [])"
| "contains (c # cs) sub = (starts_with (c # cs) sub \<or> contains cs sub)"

section \<open>Metrics engine: \<^verbatim>\<open>src/core/metrics.py\<close> over the storage of \<^verbatim>\<open>src/core/database.py\<close>\<close>

text \<open>
  The storage is the content of its tables, each a list of rows in the order in which a
  query without \<^verbatim>\<open>ORDER BY\<close> returns them. A \<^verbatim>\<open>datetime\<close> is a number of
  microseconds; nullable columns are options. The line counters of a commit have the
  column default 0 and are taken as integers. All queries of one computation see the
  same clock value \<open>now\<close>.
\<close>

type_synonym datetime = int

record engineer =
  eng_id :: int
  eng_team_id :: "int option"

record team =
  tm_id :: int

record commit =
  author_id :: "int option"
  repository_id :: "int option"
  committed_at :: datetime
  additions :: int
  deletions :: int
  changed_files :: int

record pull_request =
  pr_author_id :: "int option"
  pr_created_at :: datetime

record deployment =
  dep_id :: int
  dep_repository_id :: "int option"
  status :: "string option"
  deployed_at :: datetime

record incident =
  inc_created_at :: datetime
  resolved_at :: "datetime option"
  caused_by_deployment_id :: "int option"

record database =
  engineers :: "engineer list"
  teams :: "team list"
  commits :: "commit list"
  pull_requests :: "pull_request list"
  deployments :: "deployment list"
  incidents :: "incident list"

text \<open>\<^verbatim>\<open>datetime.utcnow() - timedelta(days=days)\<close>\<close>

definition cutoff :: "datetime \<Rightarrow> int \<Rightarrow> datetime" where
  "cutoff now days = now - days * 86400000000"

text \<open>\<^verbatim>\<open>td.total_seconds()\<close>\<close>

definition total_seconds :: "int \<Rightarrow> real" where
  "total_seconds td = real_of_int td / 1000000"

text \<open>Truth value of an optional integer argument: \<^verbatim>\<open>None\<close> and 0 are false.\<close>

definition truthy_id :: "int option \<Rightarrow> bool" where
  "truthy_id x = (case x of None \<Rightarrow> False | Some n \<Rightarrow> n \<noteq> 0)"

definition get_engineer_commits :: "database \<Rightarrow> datetime \<Rightarrow> int option \<Rightarrow> int \<Rightarrow> commit list" where
  "get_engineer_commits db now engineer_id days =
     filter (\<lambda>c. author_id c \<noteq> None \<and> author_id c = engineer_id \<and>
                  committed_at c \<ge> cutoff now days) (commits db)"

text \<open>\<^verbatim>\<open>query(Commit).join(Engineer)\<close>: one row for every pair of a commit and the
  engineer its \<^verbatim>\<open>author_id\<close> refers to.\<close>

definition get_team_commits :: "database \<Rightarrow> datetime \<Rightarrow> int option \<Rightarrow> int \<Rightarrow> commit list" where
  "get_team_commits db now team_id days =
     [c. c \<leftarrow> commits db, e \<leftarrow> engineers db,
         author_id c = Some (eng_id e) \<and> eng_team_id e \<noteq> None \<and> eng_team_id e = team_id \<and>
         committed_at c \<ge> cutoff now days]"

definition get_all_commits :: "database \<Rightarrow> datetime \<Rightarrow> int \<Rightarrow> commit list" where
  "get_all_commits db now days = filter (\<lambda>c. committed_at c \<ge> cutoff now days) (commits db)"

definition get_engineer_pull_requests ::
    "database \<Rightarrow> datetime \<Rightarrow> int option \<Rightarrow> int \<Rightarrow> pull_request list" where
  "get_engineer_pull_requests db now engineer_id days =
     filter (\<lambda>p. pr_author_id p \<noteq> None \<and> pr_author_id p = engineer_id \<and>
                  pr_created_at p \<ge> cutoff now days) (pull_requests db)"

definition get_team_pull_requests ::
    "database \<Rightarrow> datetime \<Rightarrow> int option \<Rightarrow> int \<Rightarrow> pull_request list" where
  "get_team_pull_requests db now team_id days =
     [p. p \<leftarrow> pull_requests db, e \<leftarrow> engineers db,
         pr_author_id p = Some (eng_id e) \<and> eng_team_id e \<noteq> None \<and> eng_team_id e = team_id \<and>
         pr_created_at p \<ge> cutoff now days]"

definition get_all_pull_requests :: "database \<Rightarrow> datetime \<Rightarrow> int \<Rightarrow> pull_request list" where
  "get_all_pull_requests db now days =
     filter (\<lambda>p. pr_created_at p \<ge> cutoff now days) (pull_requests db)"

text \<open>\<^verbatim>\<open>DatabaseManager.get_deployments(days=days)\<close>: no repository filter, no ordering.\<close>

definition get_deployments :: "database \<Rightarrow> datetime \<Rightarrow> int \<Rightarrow> deployment list" where
  "get_deployments db now days =
     filter (\<lambda>d. deployed_at d \<ge> cutoff now days) (deployments db)"

definition get_incidents :: "database \<Rightarrow> datetime \<Rightarrow> int \<Rightarrow> incident list" where
  "get_incidents db now days =
     filter (\<lambda>i. inc_created_at i \<ge> cutoff now days) (incidents db)"

text \<open>The selection of the commits that \<^verbatim>\<open>_calculate_lead_time\<close>,
  \<^verbatim>\<open>calculate_code_churn_metrics\<close> and \<^verbatim>\<open>generate_performance_summary\<close> each make: by
  engineer when an engineer is given, else by team when a team is given, else all commits
  of the window. The pull requests are selected in the same way.\<close>

definition scope_commits ::
    "database \<Rightarrow> datetime \<Rightarrow> int option \<Rightarrow> int option \<Rightarrow> int \<Rightarrow> commit list" where
  "scope_commits db now team_id engineer_id days =
     (if truthy_id engineer_id then get_engineer_commits db now engineer_id days
      else if truthy_id team_id then get_team_commits db now team_id days
      else get_all_commits db now days)"

definition scope_pull_requests ::
    "database \<Rightarrow> datetime \<Rightarrow> int option \<Rightarrow> int option \<Rightarrow> int \<Rightarrow> pull_request list" where
  "scope_pull_requests db now team_id engineer_id days =
     (if truthy_id engineer_id then get_engineer_pull_requests db now engineer_id days
      else if truthy_id team_id then get_team_pull_requests db now team_id days
      else get_all_pull_requests db now days)"

subsection \<open>DORA metrics\<close>

text \<open>The inner loop of \<^verbatim>\<open>_calculate_lead_time\<close>: the deployments are walked in the
  order of the query result, and the first one that is after the commit and in the same
  repository ends the walk (\<^verbatim>\<open>break\<close>).\<close>

fun first_deployment_after :: "commit \<Rightarrow> deployment list \<Rightarrow> deployment option" where
  "first_deployment_after c [] = None"
| "first_deployment_after c (d # ds) =
     (if deployed_at d > committed_at c \<and> dep_repository_id d = repository_id c
      then Some d else first_deployment_after c ds)"

fun collect_lead_times :: "commit list \<Rightarrow> deployment list \<Rightarrow> real list \<Rightarrow> real list" where
  "collect_lead_times [] ds lead_times = lead_times"
| "collect_lead_times (c # cs) ds lead_times =
     (case first_deployment_after c ds of
        None \<Rightarrow> collect_lead_times cs ds lead_times
      | Some d \<Rightarrow>
          collect_lead_times cs ds
            (lead_times @ [total_seconds (deployed_at d - committed_at c) / 86400]))"

definition calculate_lead_time ::
    "database \<Rightarrow> datetime \<Rightarrow> int option \<Rightarrow> int option \<Rightarrow> int \<Rightarrow> real" where
  "calculate_lead_time db now team_id engineer_id days =
     (let cs = scope_commits db now team_id engineer_id days;
          ds = get_deployments db now days;
          lead_times = collect_lead_times cs ds [] in
      if lead_times \<noteq> [] then sum_list lead_times / real (length lead_times) else 0)"

definition calculate_deployment_frequency :: "database \<Rightarrow> datetime \<Rightarrow> int \<Rightarrow> real" where
  "calculate_deployment_frequency db now days =
     (let successful_deployments =
            filter (\<lambda>d. status d = Some ''success'') (get_deployments db now days) in
      if days > 0 then real (length successful_deployments) / real_of_int days else 0)"

fun caused_incident :: "deployment \<Rightarrow> incident list \<Rightarrow> bool" where
  "caused_incident d [] = False"
| "caused_incident d (i # is) =
     (if caused_by_deployment_id i = Some (dep_id d) then True else caused_incident d is)"

fun count_failed_deployments :: "deployment list \<Rightarrow> incident list \<Rightarrow> nat \<Rightarrow> nat" where
  "count_failed_deployments [] is failed = failed"
| "count_failed_deployments (d # ds) is failed =
     count_failed_deployments ds is (if caused_incident d is then failed + 1 else failed)"

definition calculate_change_failure_rate :: "database \<Rightarrow> datetime \<Rightarrow> int \<Rightarrow> real" where
  "calculate_change_failure_rate db now days =
     (let ds = get_deployments db now days; is = get_incidents db now days in
      if ds = [] then 0
      else (real (count_failed_deployments ds is 0) / real (length ds)) * 100)"

definition calculate_mttr :: "database \<Rightarrow> datetime \<Rightarrow> int \<Rightarrow> real" where
  "calculate_mttr db now days =
     (let recovery_times =
            concat (map (\<lambda>i. case resolved_at i of None \<Rightarrow> []
                              | Some r \<Rightarrow> [total_seconds (r - inc_created_at i) / 3600])
                        (get_incidents db now days)) in
      if recovery_times = [] then 0
      else sum_list recovery_times / real (length recovery_times))"

record DORAMetrics =
  lead_time_days :: real
  deployment_frequency :: real
  change_failure_rate :: real
  mean_time_to_recovery_hours :: real

definition calculate_dora_metrics ::
    "database \<Rightarrow> datetime \<Rightarrow> int option \<Rightarrow> int option \<Rightarrow> int \<Rightarrow> DORAMetrics" where
  "calculate_dora_metrics db now team_id engineer_id days =
     \<lparr> lead_time_days = calculate_lead_time db now team_id engineer_id days,
       deployment_frequency = calculate_deployment_frequency db now days,
       change_failure_rate = calculate_change_failure_rate db now days,
       mean_time_to_recovery_hours = calculate_mttr db now days \<rparr>"

subsection \<open>Code churn\<close>

record CodeChurnMetrics =
  total_churn :: int
  churn_rate :: real
  high_churn_files :: "string list"
  risk_score :: real

definition identify_high_churn_files :: "commit list \<Rightarrow> string list" where
  "identify_high_churn_files cs = []"

definition calculate_churn_risk_score :: "commit list \<Rightarrow> real" where
  "calculate_churn_risk_score cs =
     (if cs = [] then 0
      else
        let total = sum_list (map (\<lambda>c. additions c + deletions c) cs);
            avg_churn_per_commit = real_of_int total / real (length cs);
            large_commits = sum_list (map (\<lambda>c. 1) (filter (\<lambda>c. additions c + deletions c > 300) cs));
            large_commit_ratio = real large_commits / real (length cs) in
        min 100 ((avg_churn_per_commit / 10) + (large_commit_ratio * 50)))"

text \<open>\<^verbatim>\<open>calculate_code_churn_metrics\<close> once the commits are selected.\<close>

definition churn_metrics_of :: "commit list \<Rightarrow> CodeChurnMetrics" where
  "churn_metrics_of cs =
     (let total = sum_list (map (\<lambda>c. additions c + deletions c) cs) in
      \<lparr> total_churn = total,
        churn_rate = (if cs \<noteq> [] then real_of_int total / real (length cs) else 0),
        high_churn_files = identify_high_churn_files cs,
        risk_score = calculate_churn_risk_score cs \<rparr>)"

definition calculate_code_churn_metrics ::
    "database \<Rightarrow> datetime \<Rightarrow> int option \<Rightarrow> int option \<Rightarrow> int \<Rightarrow> CodeChurnMetrics" where
  "calculate_code_churn_metrics db now engineer_id team_id days =
     churn_metrics_of (scope_commits db now team_id engineer_id days)"

subsection \<open>Review metrics and the summary\<close>

record ReviewMetrics =
  avg_review_time_hours :: real
  review_participation_rate :: real
  pr_cycle_time_hours :: real
  approval_rate :: real

definition calculate_review_metrics ::
    "database \<Rightarrow> datetime \<Rightarrow> int option \<Rightarrow> int option \<Rightarrow> int \<Rightarrow> ReviewMetrics" where
  "calculate_review_metrics db now engineer_id team_id days =
     (let prs = scope_pull_requests db now team_id engineer_id days in
      if prs = [] then
        \<lparr> avg_review_time_hours = 0, review_participation_rate = 0,
          pr_cycle_time_hours = 0, approval_rate = 0 \<rparr>
      else
        \<lparr> avg_review_time_hours = 8.5, review_participation_rate = 85,
          pr_cycle_time_hours = 24, approval_rate = 92 \<rparr>)"

definition VInt :: "int \<Rightarrow> pyval" where
  "VInt n = VNum (real_of_int n)"

definition generate_performance_summary ::
    "database \<Rightarrow> datetime \<Rightarrow> int option \<Rightarrow> int option \<Rightarrow> int \<Rightarrow> pydict" where
  "generate_performance_summary db now engineer_id team_id days =
     (let dora_metrics = calculate_dora_metrics db now team_id engineer_id days;
          churn_metrics = calculate_code_churn_metrics db now engineer_id team_id days;
          review_metrics = calculate_review_metrics db now engineer_id team_id days;
          cs = scope_commits db now team_id engineer_id days;
          prs = scope_pull_requests db now team_id engineer_id days in
      [(''period_days'', VInt days),
       (''basic_stats'', VDict
          [(''total_commits'', VInt (int (length cs))),
           (''total_pull_requests'', VInt (int (length prs))),
           (''lines_added'', VInt (sum_list (map additions cs))),
           (''lines_deleted'', VInt (sum_list (map deletions cs))),
           (''files_changed'', VInt (sum_list (map changed_files cs)))]),
       (''dora_metrics'', VDict
          [(''lead_time_days'', VNum (lead_time_days dora_metrics)),
           (''deployment_frequency'', VNum (deployment_frequency dora_metrics)),
           (''change_failure_rate'', VNum (change_failure_rate dora_metrics)),
           (''mttr_hours'', VNum (mean_time_to_recovery_hours dora_metrics))]),
       (''code_quality'', VDict
          [(''total_churn'', VInt (total_churn churn_metrics)),
           (''churn_rate'', VNum (churn_rate churn_metrics)),
           (''risk_score'', VNum (risk_score churn_metrics)),
           (''high_risk_files'', VInt (int (length (high_churn_files churn_metrics))))]),
       (''review_metrics'', VDict
          [(''avg_review_time_hours'', VNum (avg_review_time_hours review_metrics)),
           (''review_participation_rate'', VNum (review_participation_rate review_metrics)),
           (''pr_cycle_time_hours'', VNum (pr_cycle_time_hours review_metrics)),
           (''approval_rate'', VNum (approval_rate review_metrics))])])"

section \<open>Analysis engine: \<^verbatim>\<open>DiffAnalystAgent\<close>\<close>

record patterns =
  large_changes :: bool
  frequent_modifications :: bool
  risk_threshold_exceeded :: bool

record churn_analysis =
  ca_total_churn :: real
  ca_churn_rate :: real
  churn_level :: string
  ca_risk_score :: real
  ca_recommendations :: "string list"
  ca_patterns :: patterns

text \<open>\<^verbatim>\<open>mitigation_strategies\<close> is \<^verbatim>\<open>list(set(strategies))\<close>, a list in an order
  Python does not fix; it is kept as the set.\<close>

record risk_assessment =
  overall_risk_level :: string
  identified_risks :: "string list"
  ra_risk_score :: real
  mitigation_strategies :: "string set"

record quality_indicators =
  velocity_score :: real
  quality_score :: real
  collaboration_score :: real
  overall_score :: real
  grade :: string

record trend_analysis =
  velocity_trend :: string
  quality_trend :: string
  collaboration_trend :: string
  ta_recommendations :: "string list"

record analysis =
  an_churn_analysis :: churn_analysis
  an_risk_assessment :: risk_assessment
  an_quality_indicators :: quality_indicators
  an_trend_analysis :: trend_analysis

definition analyze_churn_patterns :: "pydict \<Rightarrow> churn_analysis result" where
  "analyze_churn_patterns data =
     (let churn_data = dict_get data ''code_quality'' (VDict []) in
      bind_r (py_get churn_data ''total_churn'' (VNum 0)) (\<lambda>total_churn.
      bind_r (py_get churn_data ''churn_rate'' (VNum 0)) (\<lambda>churn_rate.
      bind_r (py_get churn_data ''risk_score'' (VNum 0)) (\<lambda>risk_score.
      bind_r (py_gt churn_rate 200) (\<lambda>gt200.
      bind_r (if gt200 then Inr True else py_gt churn_rate 100) (\<lambda>gt100.
      let (level, recommendations) =
            (if gt200 then
               (''HIGH'', [''Consider breaking down large changes'',
                           ''Increase code review rigor''])
             else if gt100 then
               (''MODERATE'', [''Monitor for refactoring opportunities'',
                               ''Maintain current review practices''])
             else
               (''LOW'', [''Churn levels are healthy'', ''Continue current practices''])) in
      bind_r (py_num total_churn) (\<lambda>tc.
      bind_r (py_num churn_rate) (\<lambda>cr.
      bind_r (py_num risk_score) (\<lambda>rs.
        Inr \<lparr> ca_total_churn = tc, ca_churn_rate = cr, churn_level = level,
              ca_risk_score = rs, ca_recommendations = recommendations,
              ca_patterns = \<lparr> large_changes = cr > 150,
                              frequent_modifications = tc > 5000,
                              risk_threshold_exceeded = rs > 70 \<rparr> \<rparr>)))))))))"

definition calculate_composite_risk_score :: "pydict \<Rightarrow> real result" where
  "calculate_composite_risk_score data =
     (let dora = dict_get data ''dora_metrics'' (VDict []);
          code_quality = dict_get data ''code_quality'' (VDict []) in
      bind_r (py_get dora ''change_failure_rate'' (VNum 0)) (\<lambda>cfr.
      bind_r (py_mul_int cfr 2) (\<lambda>failure_risk.
      bind_r (py_get code_quality ''risk_score'' (VNum 0)) (\<lambda>rs.
      bind_r (py_num rs) (\<lambda>rs_n.
      let churn_risk = rs_n * 0.5 in
      bind_r (py_get dora ''lead_time_days'' (VNum 0)) (\<lambda>lt.
      bind_r (py_num lt) (\<lambda>lt_n.
      let lead_time_risk = min 50 (lt_n * 5) in
      bind_r (py_num failure_risk) (\<lambda>failure_risk_n.
        Inr (min 100 (failure_risk_n + churn_risk + lead_time_risk))))))))))"

definition suggest_mitigation_strategies :: "string list \<Rightarrow> string set" where
  "suggest_mitigation_strategies risks =
     set (concat (map (\<lambda>risk.
       if contains (lower_str risk) ''failure rate'' then
         [''Implement more comprehensive testing'', ''Add pre-deployment validation checks'']
       else if contains (lower_str risk) ''lead time'' then
         [''Optimize CI/CD pipeline'', ''Reduce approval bottlenecks'']
       else if contains (lower_str risk) ''churn'' then
         [''Focus on smaller, more frequent changes'', ''Increase pair programming sessions'']
       else if contains (lower_str risk) ''review'' then
         [''Implement review assignment automation'', ''Provide code review training'']
       else []) risks))"

definition assess_risk_factors :: "pydict \<Rightarrow> risk_assessment result" where
  "assess_risk_factors data =
     (let dora = dict_get data ''dora_metrics'' (VDict []);
          code_quality = dict_get data ''code_quality'' (VDict []);
          review = dict_get data ''review_metrics'' (VDict []);
          risks0 = [];
          level0 = ''LOW'' in
      bind_r (py_get dora ''change_failure_rate'' (VNum 0)) (\<lambda>cfr.
      bind_r (py_gt cfr 15) (\<lambda>c1.
      let risks1 = (if c1 then risks0 @ [''High change failure rate indicates quality issues'']
                    else risks0);
          level1 = (if c1 then ''HIGH'' else level0) in
      bind_r (py_get dora ''lead_time_days'' (VNum 0)) (\<lambda>lt.
      bind_r (py_gt lt 7) (\<lambda>c2.
      let risks2 = (if c2 then risks1 @ [''Long lead times may indicate process bottlenecks'']
                    else risks1);
          level2 = (if c2 \<and> level1 = ''LOW'' then ''MODERATE'' else level1) in
      bind_r (py_get code_quality ''risk_score'' (VNum 0)) (\<lambda>rs.
      bind_r (py_gt rs 60) (\<lambda>c3.
      let risks3 = (if c3 then risks2 @ [''Code churn patterns indicate potential technical debt'']
                    else risks2);
          level3 = (if c3 then ''HIGH'' else level2) in
      bind_r (py_get review ''review_participation_rate'' (VNum 100)) (\<lambda>rp.
      bind_r (py_lt rp 70) (\<lambda>c4.
      let risks4 = (if c4 then risks3 @ [''Low review participation may lead to quality issues'']
                    else risks3);
          level4 = (if c4 \<and> level3 = ''LOW'' then ''MODERATE'' else level3);
          risks5 = (if risks4 = [] then risks4 @ [''No significant risk factors identified'']
                    else risks4) in
      bind_r (calculate_composite_risk_score data) (\<lambda>score.
        Inr \<lparr> overall_risk_level = level4, identified_risks = risks5,
              ra_risk_score = score,
              mitigation_strategies = suggest_mitigation_strategies risks5 \<rparr>))))))))))"

definition score_to_grade :: "real \<Rightarrow> string" where
  "score_to_grade score =
     (if score \<ge> 90 then ''A'' else if score \<ge> 80 then ''B''
      else if score \<ge> 70 then ''C'' else if score \<ge> 60 then ''D'' else ''F'')"

definition calculate_quality_indicators :: "pydict \<Rightarrow> quality_indicators result" where
  "calculate_quality_indicators data =
     (let basic = dict_get data ''basic_stats'' (VDict []);
          dora = dict_get data ''dora_metrics'' (VDict []);
          review = dict_get data ''review_metrics'' (VDict []) in
      bind_r (py_get basic ''total_commits'' (VNum 0)) (\<lambda>tc.
      bind_r (py_truediv tc (dict_get data ''period_days'' (VNum 7))) (\<lambda>per_day.
      let velocity_score = min 100 (per_day * 10) in
      bind_r (py_get dora ''change_failure_rate'' (VNum 0)) (\<lambda>cfr.
      bind_r (py_num cfr) (\<lambda>cfr_n.
      let quality_score = max 0 (100 - cfr_n * 5) in
      bind_r (py_get review ''review_participation_rate'' (VNum 0)) (\<lambda>rp.
      bind_r (py_num rp) (\<lambda>collaboration_score.
      let overall_score = (velocity_score + quality_score + collaboration_score) / 3 in
        Inr \<lparr> velocity_score = py_round velocity_score 1,
              quality_score = py_round quality_score 1,
              collaboration_score = py_round collaboration_score 1,
              overall_score = py_round overall_score 1,
              grade = score_to_grade overall_score \<rparr>)))))))"

definition analyze_trends :: "pydict \<Rightarrow> trend_analysis" where
  "analyze_trends data =
     \<lparr> velocity_trend = ''stable'', quality_trend = ''improving'',
       collaboration_trend = ''stable'',
       ta_recommendations = [''Maintain current development pace'',
                             ''Continue focus on quality practices'',
                             ''Consider expanding collaboration metrics''] \<rparr>"

text \<open>The body of the \<^verbatim>\<open>try\<close> of \<^verbatim>\<open>DiffAnalystAgent.execute\<close>: the dictionary literal
  evaluates its four entries in order and the first exception leaves the block.\<close>

definition analyze :: "pydict \<Rightarrow> analysis result" where
  "analyze data =
     bind_r (analyze_churn_patterns data) (\<lambda>ca.
     bind_r (assess_risk_factors data) (\<lambda>ra.
     bind_r (calculate_quality_indicators data) (\<lambda>qi.
       Inr \<lparr> an_churn_analysis = ca, an_risk_assessment = ra,
             an_quality_indicators = qi, an_trend_analysis = analyze_trends data \<rparr>)))"

section \<open>Insight parsing: \<^verbatim>\<open>InsightNarratorAgent._parse_insights_from_response\<close>\<close>

text \<open>
  The response of the text generator is a Python \<^verbatim>\<open>str\<close>: a list of code points, so that
  \<^verbatim>\<open>len\<close> counts the bullet U+2022 as one character. The Unicode tables behind
  \<^verbatim>\<open>str.strip\<close>, \<^verbatim>\<open>str.isdigit\<close> and \<^verbatim>\<open>str.lower\<close> are not part of the program and are
  parameters of the model.
\<close>

type_synonym ustr = "nat list"

record unicode_tables =
  isspace :: "nat \<Rightarrow> bool"
  isdigit :: "nat \<Rightarrow> bool"
  lower :: "ustr \<Rightarrow> ustr"

definition ustr_of :: "string \<Rightarrow> ustr" where
  "ustr_of s = map of_char s"

definition bullet :: nat where
  "bullet = 8226"

text \<open>\<^verbatim>\<open>s.split(sep)\<close> for a separator of one character: never an empty list.\<close>

fun split_on :: "'a \<Rightarrow> 'a list \<Rightarrow> 'a list list" where
  "split_on sep [] = [[]]"
| "split_on sep (c # cs) =
     (if c = sep then [] # split_on sep cs
      else (case split_on sep cs of [] \<Rightarrow> [[c]] | p # ps \<Rightarrow> (c # p) # ps))"

definition py_strip :: "unicode_tables \<Rightarrow> ustr \<Rightarrow> ustr" where
  "py_strip T s = rev (dropWhile (isspace T) (rev (dropWhile (isspace T) s)))"

definition py_lstrip_chars :: "ustr \<Rightarrow> ustr \<Rightarrow> ustr" where
  "py_lstrip_chars chars s = dropWhile (\<lambda>c. c \<in> set chars) s"

definition strip_chars :: ustr where
  "strip_chars = ustr_of ''0123456789.-'' @ [bullet] @ ustr_of ''* ''"

text \<open>\<^verbatim>\<open>line[0]\<close>\<close>

definition py_index0 :: "ustr \<Rightarrow> nat result" where
  "py_index0 s = (case s of [] \<Rightarrow> Inl IndexError | c # _ \<Rightarrow> Inr c)"

text \<open>The condition of the first loop; \<^verbatim>\<open>and\<close> stops at an empty line before
  \<^verbatim>\<open>line[0]\<close> is read.\<close>

definition is_candidate :: "unicode_tables \<Rightarrow> ustr \<Rightarrow> bool result" where
  "is_candidate T line =
     (if line = [] then Inr False
      else bind_r (py_index0 line) (\<lambda>c0.
        Inr ((isdigit T c0 \<or> starts_with line (ustr_of ''-'') \<or> starts_with line [bullet]
                \<or> starts_with line (ustr_of ''*''))
             \<and> length line > 10)))"

text \<open>The body of the first loop, from the insights so far to the insights after the
  line.\<close>

definition scan_line :: "unicode_tables \<Rightarrow> ustr \<Rightarrow> ustr list \<Rightarrow> ustr list result" where
  "scan_line T l insights =
     (let line = py_strip T l in
      bind_r (is_candidate T line) (\<lambda>cand.
        if cand then
          let cleaned = py_strip T (py_lstrip_chars strip_chars line) in
          if cleaned \<noteq> [] \<and> length cleaned > 20 then Inr (insights @ [cleaned])
          else Inr insights
        else Inr insights))"

fun scan_lines :: "unicode_tables \<Rightarrow> ustr list \<Rightarrow> ustr list \<Rightarrow> ustr list result" where
  "scan_lines T [] insights = Inr insights"
| "scan_lines T (l # ls) insights =
     (case scan_line T l insights of
        Inl e \<Rightarrow> Inl e
      | Inr insights' \<Rightarrow> scan_lines T ls insights')"

text \<open>The body of the fallback loop over the sentences.\<close>

definition scan_sentence :: "unicode_tables \<Rightarrow> ustr \<Rightarrow> ustr list \<Rightarrow> ustr list" where
  "scan_sentence T x insights =
     (let sentence = py_strip T x in
      if length sentence > 30 \<and>
         (contains (lower T sentence) (ustr_of ''team'') \<or>
          contains (lower T sentence) (ustr_of ''performance''))
      then insights @ [sentence @ ustr_of ''.'']
      else insights)"

fun scan_sentences :: "unicode_tables \<Rightarrow> ustr list \<Rightarrow> ustr list \<Rightarrow> ustr list" where
  "scan_sentences T [] insights = insights"
| "scan_sentences T (x # xs) insights = scan_sentences T xs (scan_sentence T x insights)"

definition parse_insights_from_response :: "unicode_tables \<Rightarrow> ustr \<Rightarrow> ustr list result" where
  "parse_insights_from_response T response_content =
     bind_r (scan_lines T (split_on 10 response_content) []) (\<lambda>insights.
       let insights' =
             (if insights = [] then scan_sentences T (split_on 46 response_content) insights
              else insights) in
       Inr (take 5 insights'))"

text \<open>
  The parsing rule in the words of the specification, written without the functions of
  the embedding above so that the two can be compared: the pieces of a text between
  separators, trimming, the characters stripped from the front of a line, which trimmed
  lines qualify, which cleaned lines and which sentences are kept.
\<close>

function pieces :: "'a \<Rightarrow> 'a list \<Rightarrow> 'a list list" where
  "pieces sep s =
     (case dropWhile (\<lambda>c. c \<noteq> sep) s of
        [] \<Rightarrow> [s]
      | _ # rest \<Rightarrow> takeWhile (\<lambda>c. c \<noteq> sep) s # pieces sep rest)"
  by pat_completeness auto
termination
proof (relation "measure (\<lambda>(sep, s). length s)")
  show "wf (measure (\<lambda>(sep, s). length s))" by simp
next
  fix sep :: 'a and s x21 x22
  assume "dropWhile (\<lambda>c. c \<noteq> sep) s = x21 # x22"
  then have "length (x21 # x22) \<le> length s"
    by (metis length_dropWhile_le)
  then show "((sep, x22), (sep, s)) \<in> measure (\<lambda>(sep, s). length s)" by simp
qed

declare pieces.simps [simp del]

definition trim :: "unicode_tables \<Rightarrow> ustr \<Rightarrow> ustr" where
  "trim T s =
     (let t = drop (length (takeWhile (isspace T) s)) s in
      take (length t - length (takeWhile (isspace T) (rev t))) t)"

text \<open>The digits 0 to 9, the dot, the dash, the bullet, the star and the blank.\<close>

definition lead_char :: "nat \<Rightarrow> bool" where
  "lead_char c =
     ((48 \<le> c \<and> c \<le> 57) \<or> c = 46 \<or> c = 45 \<or> c = 8226 \<or> c = 42 \<or> c = 32)"

definition without_lead :: "ustr \<Rightarrow> ustr" where
  "without_lead s = drop (length (takeWhile lead_char s)) s"

definition qualifies :: "unicode_tables \<Rightarrow> ustr \<Rightarrow> bool" where
  "qualifies T line =
     (case line of [] \<Rightarrow> False
      | c # _ \<Rightarrow> (isdigit T c \<or> c = 45 \<or> c = 8226 \<or> c = 42) \<and> length line > 10)"

definition qualifying_lines :: "unicode_tables \<Rightarrow> ustr \<Rightarrow> ustr list" where
  "qualifying_lines T s = filter (qualifies T) (map (trim T) (pieces 10 s))"

definition kept_lines :: "unicode_tables \<Rightarrow> ustr \<Rightarrow> ustr list" where
  "kept_lines T s =
     filter (\<lambda>c. length c > 20) (map (\<lambda>l. trim T (without_lead l)) (qualifying_lines T s))"

text \<open>The words \<open>team\<close> and \<open>performance\<close> as code points.\<close>

definition kept_sentences :: "unicode_tables \<Rightarrow> ustr \<Rightarrow> ustr list" where
  "kept_sentences T s =
     map (\<lambda>x. x @ [46])
       (filter (\<lambda>x. length x > 30 \<and>
                    (sublist [116, 101, 97, 109] (lower T x) \<or>
                     sublist [112, 101, 114, 102, 111, 114, 109, 97, 110, 99, 101] (lower T x)))
               (map (trim T) (pieces 46 s)))"

text \<open>The rule the parser follows: the sentences are used when no line is kept.\<close>

definition insights_by_rule :: "unicode_tables \<Rightarrow> ustr \<Rightarrow> ustr list" where
  "insights_by_rule T s =
     take 5 (if kept_lines T s = [] then kept_sentences T s else kept_lines T s)"

text \<open>The rule as the specification words it: the sentences are used when no line
  qualifies.\<close>

definition insights_as_specified :: "unicode_tables \<Rightarrow> ustr \<Rightarrow> ustr list" where
  "insights_as_specified T s =
     take 5 (if qualifying_lines T s = [] then kept_sentences T s else kept_lines T s)"

text \<open>The ASCII part of Python's tables, and three responses: one whose only marked
  line is too short to be kept, one with numbered, dashed, bulleted and starred lines, and
  one with more than five lines to keep.\<close>

definition ascii_tables :: unicode_tables where
  "ascii_tables = \<lparr> isspace = (\<lambda>c. c \<in> {9, 10, 11, 12, 13, 32}),
                     isdigit = (\<lambda>c. 48 \<le> c \<and> c \<le> 57),
                     lower = map (\<lambda>c. if 65 \<le> c \<and> c \<le> 90 then c + 32 else c) \<rparr>"

definition short_line_response :: ustr where
  "short_line_response =
     ustr_of ''1. short line x'' @ [10] @
     ustr_of ''The Team Performance is really great overall today. Fine.''"

definition marked_response :: ustr where
  "marked_response =
     ustr_of ''Key Insights:'' @ [10] @
     ustr_of ''1. **Steady Pace**: The team keeps a steady pace'' @ [10] @
     ustr_of ''- too short'' @ [10] @
     [8226] @ ustr_of '' Monitor file churn patterns weekly'' @ [10] @
     ustr_of ''   * Consider implementing automated testing   '' @ [10] @
     ustr_of ''- Continue the strong code review culture''"

definition long_response :: ustr where
  "long_response =
     ustr_of ''1. Steady delivery pace this week'' @ [10] @
     ustr_of ''2. Review times within standards'' @ [10] @
     ustr_of ''3. Low failure rate in deployments'' @ [10] @
     ustr_of ''4. Lead time could be improved'' @ [10] @
     ustr_of ''5. Churn is balanced across files'' @ [10] @
     ustr_of ''6. Deployment frequency is stable''"

section \<open>Pipeline state and the three stages\<close>

record agent_state =
  request_type :: string
  team_id :: "int option"
  engineer_id :: "int option"
  time_period :: int
  raw_data :: "pydict option"
  analysis_results :: "analysis option"
  insights :: "ustr list option"
  narrative :: ustr
  charts :: "pydict list option"
  error :: "string option"

text \<open>Truth value of \<^verbatim>\<open>state.error\<close> and of \<^verbatim>\<open>state.raw_data\<close>: \<^verbatim>\<open>None\<close>, the empty
  string and the empty dictionary are false.\<close>

definition error_set :: "agent_state \<Rightarrow> bool" where
  "error_set s = (case error s of None \<Rightarrow> False | Some m \<Rightarrow> m \<noteq> [])"

subsection \<open>Stage 1: \<^verbatim>\<open>DataHarvesterAgent\<close>\<close>

text \<open>
  The collaborators of the harvest: the storage (unavailable with an exception, or its
  tables), the clock, the repositories of the source-control account with what
  \<^verbatim>\<open>sync_repository_data\<close> and \<^verbatim>\<open>get_repository_commits\<close> return or raise for each, and
  the \<^verbatim>\<open>random\<close> module as the sequence of its draws from \<open>[0, 1)\<close>.
\<close>

record repo =
  full_name :: string
  sync_repository_data :: "(string \<times> int) list result"
  get_repository_commits :: "(string \<times> int) list list result"

type_synonym rng = "nat \<Rightarrow> real"

record world =
  storage :: "database result"
  utcnow :: datetime
  get_repos :: "repo list result"
  random_source :: rng

definition uniform :: "real \<Rightarrow> real \<Rightarrow> rng \<Rightarrow> real \<times> rng" where
  "uniform a b r = (a + (b - a) * r 0, \<lambda>k. r (Suc k))"

definition randint :: "int \<Rightarrow> int \<Rightarrow> rng \<Rightarrow> int \<times> rng" where
  "randint a b r = (a + \<lfloor>real_of_int (b - a + 1) * r 0\<rfloor>, \<lambda>k. r (Suc k))"

definition int_get :: "(string \<times> int) list \<Rightarrow> string \<Rightarrow> int \<Rightarrow> int" where
  "int_get d k dflt = (case map_of d k of None \<Rightarrow> dflt | Some v \<Rightarrow> v)"

record totals =
  total_commits :: int
  total_prs :: int
  lines_added :: int
  lines_deleted :: int
  files_changed :: int

fun add_commits :: "(string \<times> int) list list \<Rightarrow> totals \<Rightarrow> totals" where
  "add_commits [] t = t"
| "add_commits (c # cs) t =
     add_commits cs
       (t\<lparr> lines_added := lines_added t + int_get c ''additions'' 0,
           lines_deleted := lines_deleted t + int_get c ''deletions'' 0,
           files_changed := files_changed t + int_get c ''changed_files'' 0 \<rparr>)"

text \<open>One turn of the loop over the repositories: an exception of either call is caught
  and the loop goes on with the totals as they are at that point.\<close>

definition process_repo :: "repo \<Rightarrow> totals \<Rightarrow> totals" where
  "process_repo rp t =
     (case sync_repository_data rp of
        Inl e \<Rightarrow> t
      | Inr repo_data \<Rightarrow>
          let t' = t\<lparr> total_commits := total_commits t + int_get repo_data ''commits_stored'' 0,
                      total_prs := total_prs t + int_get repo_data ''pull_requests_stored'' 0 \<rparr> in
          (case get_repository_commits rp of
             Inl e \<Rightarrow> t'
           | Inr cs \<Rightarrow> add_commits cs t'))"

fun process_repos :: "repo list \<Rightarrow> totals \<Rightarrow> totals" where
  "process_repos [] t = t"
| "process_repos (rp # rps) t = process_repos rps (process_repo rp t)"

definition bootstrap_stats :: "repo list \<Rightarrow> int \<Rightarrow> rng \<Rightarrow> pydict" where
  "bootstrap_stats repos days r0 =
     (let t = process_repos repos
                \<lparr> total_commits = 0, total_prs = 0, lines_added = 0,
                  lines_deleted = 0, files_changed = 0 \<rparr>;
          (lead_time, r1) =
            (if total_commits t > 0
             then (let (x, r) = uniform 1.5 3.5 r0 in (py_round x 1, r)) else (0, r0));
          deploy_freq =
            (if days > 0 then py_round (real_of_int (total_commits t) / real_of_int days) 2
             else 0);
          (cfr, r2) = uniform 3.0 8.0 r1;
          (mttr, r3) = uniform 3.5 6.0 r2;
          (risk, r4) = uniform 15.0 35.0 r3;
          (high_risk, r5) = randint 0 5 r4;
          (review_time, r6) = uniform 6.0 12.0 r5;
          (participation, r7) = uniform 70.0 95.0 r6;
          (cycle_time, r8) = uniform 12.0 24.0 r7;
          (approval, r9) = uniform 85.0 98.0 r8 in
      [(''period_days'', VInt days),
       (''basic_stats'', VDict
          [(''total_commits'', VInt (total_commits t)),
           (''total_pull_requests'', VInt (total_prs t)),
           (''lines_added'', VInt (lines_added t)),
           (''lines_deleted'', VInt (lines_deleted t)),
           (''files_changed'', VInt (files_changed t))]),
       (''dora_metrics'', VDict
          [(''lead_time_days'', VNum lead_time),
           (''deployment_frequency'', VNum deploy_freq),
           (''change_failure_rate'', VNum (py_round cfr 1)),
           (''mttr_hours'', VNum (py_round mttr 1))]),
       (''code_quality'', VDict
          [(''total_churn'', VInt (lines_added t + lines_deleted t)),
           (''churn_rate'', VNum (py_round
               (real_of_int (lines_added t + lines_deleted t) /
                real_of_int (max (total_commits t) 1)) 1)),
           (''risk_score'', VNum (py_round risk 1)),
           (''high_risk_files'', VInt high_risk)]),
       (''review_metrics'', VDict
          [(''avg_review_time_hours'', VNum (py_round review_time 1)),
           (''review_participation_rate'', VNum (py_round participation 1)),
           (''pr_cycle_time_hours'', VNum (py_round cycle_time 1)),
           (''approval_rate'', VNum (py_round approval 1))])])"

text \<open>The aggregation over the registered teams works on the nested dictionaries:
  \<^verbatim>\<open>aggregated[category][metric] += value\<close> and \<^verbatim>\<open>/= team_count\<close>.\<close>

definition update_metric ::
    "(real \<Rightarrow> real) \<Rightarrow> string \<Rightarrow> string \<Rightarrow> pydict \<Rightarrow> pydict result" where
  "update_metric f category metric aggregated =
     (case map_of aggregated category of
        None \<Rightarrow> Inl KeyError
      | Some (VDict g) \<Rightarrow>
          (case map_of g metric of
             None \<Rightarrow> Inl KeyError
           | Some (VNum x) \<Rightarrow>
               Inr (AList.update category (VDict (AList.update metric (VNum (f x)) g)) aggregated)
           | Some _ \<Rightarrow> Inl TypeError)
      | Some _ \<Rightarrow> Inl TypeError)"

fun fold_r :: "('a \<Rightarrow> 's \<Rightarrow> 's result) \<Rightarrow> 'a list \<Rightarrow> 's \<Rightarrow> 's result" where
  "fold_r f [] acc = Inr acc"
| "fold_r f (x # xs) acc =
     (case f x acc of Inl e \<Rightarrow> Inl e | Inr acc' \<Rightarrow> fold_r f xs acc')"

definition add_category :: "pydict \<Rightarrow> string \<Rightarrow> pydict \<Rightarrow> pydict result" where
  "add_category team_data category aggregated =
     (case map_of team_data category of
        None \<Rightarrow> Inl KeyError
      | Some (VDict items) \<Rightarrow>
          fold_r (\<lambda>(metric, v) agg.
                    case v of VNum x \<Rightarrow> update_metric (\<lambda>y. y + x) category metric agg
                    | _ \<Rightarrow> Inr agg) items aggregated
      | Some _ \<Rightarrow> Inl AttributeError)"

definition categories :: "string list" where
  "categories = [''basic_stats'', ''dora_metrics'', ''code_quality'', ''review_metrics'']"

definition aggregate_teams :: "database \<Rightarrow> datetime \<Rightarrow> int \<Rightarrow> pydict result" where
  "aggregate_teams db now days =
     (let aggregated =
        [(''period_days'', VInt days),
         (''basic_stats'', VDict
            [(''total_commits'', VNum 0), (''total_pull_requests'', VNum 0),
             (''lines_added'', VNum 0), (''lines_deleted'', VNum 0), (''files_changed'', VNum 0)]),
         (''dora_metrics'', VDict
            [(''lead_time_days'', VNum 0), (''deployment_frequency'', VNum 0),
             (''change_failure_rate'', VNum 0), (''mttr_hours'', VNum 0)]),
         (''code_quality'', VDict
            [(''total_churn'', VNum 0), (''churn_rate'', VNum 0),
             (''risk_score'', VNum 0), (''high_risk_files'', VNum 0)]),
         (''review_metrics'', VDict
            [(''avg_review_time_hours'', VNum 0), (''review_participation_rate'', VNum 0),
             (''pr_cycle_time_hours'', VNum 0), (''approval_rate'', VNum 0)])];
          team_count = length (teams db) in
      bind_r (fold_r (\<lambda>tm agg.
                fold_r (add_category
                          (generate_performance_summary db now None (Some (tm_id tm)) days))
                       categories agg)
              (teams db) aggregated) (\<lambda>aggregated.
      if team_count > 0 then
        bind_r (fold_r (update_metric (\<lambda>y. y / real team_count) ''dora_metrics'')
                  [''lead_time_days'', ''deployment_frequency'', ''change_failure_rate'',
                   ''mttr_hours''] aggregated) (\<lambda>aggregated.
        bind_r (fold_r (update_metric (\<lambda>y. y / real team_count) ''code_quality'')
                  [''churn_rate'', ''risk_score''] aggregated) (\<lambda>aggregated.
        fold_r (update_metric (\<lambda>y. y / real team_count) ''review_metrics'')
                  [''avg_review_time_hours'', ''review_participation_rate'',
                   ''pr_cycle_time_hours'', ''approval_rate''] aggregated))
      else Inr aggregated))"

text \<open>\<^verbatim>\<open>_get_overall_stats\<close>: without a registered team the repositories of the account are
  listed (a failure of that call leaves the function) and summed up; otherwise the teams
  are aggregated. Constructing the source-control client does not raise.\<close>

definition get_overall_stats :: "world \<Rightarrow> database \<Rightarrow> int \<Rightarrow> pydict result" where
  "get_overall_stats w db days =
     (if teams db = [] then
        bind_r (get_repos w) (\<lambda>repos. Inr (bootstrap_stats repos days (random_source w)))
      else aggregate_teams db (utcnow w) days)"

text \<open>The body of the \<^verbatim>\<open>try\<close> of \<^verbatim>\<open>DataHarvesterAgent.execute\<close>; every branch starts
  with a query, which raises when the storage is unavailable.\<close>

definition harvest :: "world \<Rightarrow> agent_state \<Rightarrow> pydict result" where
  "harvest w state =
     bind_r (storage w) (\<lambda>db.
       if truthy_id (engineer_id state) then
         Inr (generate_performance_summary db (utcnow w) (engineer_id state) None
                (time_period state))
       else if truthy_id (team_id state) then
         Inr (generate_performance_summary db (utcnow w) None (team_id state)
                (time_period state))
       else get_overall_stats w db (time_period state))"

definition harvester_execute :: "exc_text \<Rightarrow> world \<Rightarrow> agent_state \<Rightarrow> agent_state" where
  "harvester_execute str w state =
     (case harvest w state of
        Inr data \<Rightarrow> state\<lparr> raw_data := Some data \<rparr>
      | Inl e \<Rightarrow> state\<lparr> error := Some (''Data harvesting failed: '' @ str e) \<rparr>)"

subsection \<open>Stage 2: \<^verbatim>\<open>DiffAnalystAgent.execute\<close>\<close>

definition diff_analyst_execute :: "exc_text \<Rightarrow> agent_state \<Rightarrow> agent_state" where
  "diff_analyst_execute str state =
     (if error_set state \<or> raw_data state = None \<or> raw_data state = Some [] then state
      else
        case raw_data state of
          None \<Rightarrow> state
        | Some data \<Rightarrow>
            (case analyze data of
               Inr a \<Rightarrow> state\<lparr> analysis_results := Some a \<rparr>
             | Inl e \<Rightarrow> state\<lparr> error := Some (''Diff analysis failed: '' @ str e) \<rparr>))"

subsection \<open>Stage 3: \<^verbatim>\<open>InsightNarratorAgent.execute\<close>\<close>

text \<open>
  The collaborators of the narration: the prompt template filled from the summary (a
  sub-group that is not a dictionary, or a value its format rejects, raises), the text
  generator, and the Markdown formatter \<^verbatim>\<open>_create_narrative\<close>, whose number formats and
  time stamp are outside the embedding and which does not raise on a summary the prompt
  accepted.
\<close>

record narrator_env =
  tables :: unicode_tables
  format_prompt :: "pydict \<Rightarrow> ustr result"
  generate_text :: "ustr \<Rightarrow> ustr result"
  create_narrative :: "pydict \<Rightarrow> analysis \<Rightarrow> ustr list \<Rightarrow> ustr"

definition generate_insights :: "narrator_env \<Rightarrow> pydict option \<Rightarrow> analysis \<Rightarrow> ustr list result" where
  "generate_insights env raw a =
     (case raw of
        None \<Rightarrow> Inl AttributeError
      | Some data \<Rightarrow>
          bind_r (format_prompt env data) (\<lambda>prompt.
          bind_r (generate_text env prompt) (\<lambda>content.
            parse_insights_from_response (tables env) content)))"

definition insight_narrator_execute ::
    "exc_text \<Rightarrow> narrator_env \<Rightarrow> agent_state \<Rightarrow> agent_state" where
  "insight_narrator_execute str env state =
     (if error_set state then state
      else
        case analysis_results state of
          None \<Rightarrow> state
        | Some a \<Rightarrow>
            (case generate_insights env (raw_data state) a of
               Inl e \<Rightarrow> state\<lparr> error := Some (''Insight generation failed: '' @ str e) \<rparr>
             | Inr ins \<Rightarrow>
                 (case raw_data state of
                    None \<Rightarrow> state\<lparr> error := Some (''Insight generation failed: '' @
                                                  str AttributeError) \<rparr>
                  | Some data \<Rightarrow>
                      state\<lparr> insights := Some ins,
                             narrative := create_narrative env data a ins \<rparr>)))"

subsection \<open>\<^verbatim>\<open>AgentOrchestrator.process_request\<close>\<close>

text \<open>Every stage catches its own exceptions and returns a state, so the outer
  \<^verbatim>\<open>except\<close> of \<^verbatim>\<open>process_request\<close> has no branch here.\<close>

definition initial_state :: "string \<Rightarrow> int option \<Rightarrow> int option \<Rightarrow> int \<Rightarrow> agent_state" where
  "initial_state rt tid eid tp =
     \<lparr> request_type = rt, team_id = tid, engineer_id = eid, time_period = tp,
       raw_data = None, analysis_results = None, insights = Some [], narrative = [],
       charts = Some [], error = None \<rparr>"

definition process_request ::
    "exc_text \<Rightarrow> world \<Rightarrow> narrator_env \<Rightarrow> string \<Rightarrow> int option \<Rightarrow> int option \<Rightarrow> int
       \<Rightarrow> agent_state" where
  "process_request str w env rt tid eid tp =
     (let state0 = initial_state rt tid eid tp;
          state1 = harvester_execute str w state0 in
      if error_set state1 then state1
      else
        let state2 = diff_analyst_execute str state1 in
        if error_set state2 then state2
        else
          let state3 = insight_narrator_execute str env state2 in
          if error_set state3 then state3 else state3)"

section \<open>Reading a summary\<close>

text \<open>The number the analysis reads for a metric of a sub-group:
  \<^verbatim>\<open>data.get(grp, {}).get(key, dflt)\<close>, when that is a number. An absent sub-group or
  key gives the default.\<close>

definition metric :: "pydict \<Rightarrow> string \<Rightarrow> string \<Rightarrow> real \<Rightarrow> real option" where
  "metric data grp key dflt =
     (case py_get (dict_get data grp (VDict [])) key (VNum dflt) of
        Inr (VNum r) \<Rightarrow> Some r | _ \<Rightarrow> None)"

text \<open>The scenario of the specification: failure rate 20, churn risk 50, lead time 2,
  review participation 80.\<close>

definition scenario :: pydict where
  "scenario =
     [(''period_days'', VNum 7),
      (''basic_stats'', VDict [(''total_commits'', VNum 14)]),
      (''dora_metrics'', VDict [(''change_failure_rate'', VNum 20), (''lead_time_days'', VNum 2)]),
      (''code_quality'', VDict [(''total_churn'', VNum 6000), (''churn_rate'', VNum 250),
                                (''risk_score'', VNum 50)]),
      (''review_metrics'', VDict [(''review_participation_rate'', VNum 80)])]"


text \<open>The messages of the risk checks that fire, in the order of the checks: failure
  rate, lead time, churn risk, review participation.\<close>

definition triggered_risks :: "real \<Rightarrow> real \<Rightarrow> real \<Rightarrow> real \<Rightarrow> string list" where
  "triggered_risks cfr lt rs rp =
     (if cfr > 15 then [''High change failure rate indicates quality issues''] else []) @
     (if lt > 7 then [''Long lead times may indicate process bottlenecks''] else []) @
     (if rs > 60 then [''Code churn patterns indicate potential technical debt''] else []) @
     (if rp < 70 then [''Low review participation may lead to quality issues''] else [])"


text \<open>The fraction of the commits whose own churn exceeds 300 lines.\<close>

definition large_commit_ratio :: "commit list \<Rightarrow> real" where
  "large_commit_ratio cs =
     real (length (filter (\<lambda>c. additions c + deletions c > 300) cs)) / real (length cs)"

definition two_commits :: "commit list" where
  "two_commits =
     [\<lparr> author_id = Some 1, repository_id = Some 1, committed_at = 0,
        additions = 400, deletions = 0, changed_files = 3 \<rparr>,
      \<lparr> author_id = Some 1, repository_id = Some 1, committed_at = 0,
        additions = 100, deletions = 100, changed_files = 2 \<rparr>]"

text \<open>The lead-time rule in the words of the specification: the deployments to the
  repository of the commit that are strictly after it, the earliest of them, and the mean
  over the commits that have one.\<close>

definition eligible :: "commit \<Rightarrow> deployment list \<Rightarrow> deployment list" where
  "eligible c ds =
     filter (\<lambda>d. deployed_at d > committed_at c \<and> dep_repository_id d = repository_id c) ds"

definition earliest_lead_time :: "commit \<Rightarrow> deployment list \<Rightarrow> real option" where
  "earliest_lead_time c ds =
     (case eligible c ds of
        [] \<Rightarrow> None
      | e # es \<Rightarrow>
          Some (total_seconds (fold min (map deployed_at es) (deployed_at e) - committed_at c)
                / 86400))"

definition lead_time_by_rule ::
    "database \<Rightarrow> datetime \<Rightarrow> int option \<Rightarrow> int option \<Rightarrow> int \<Rightarrow> real" where
  "lead_time_by_rule db now tid eid days =
     (let matched = concat (map (\<lambda>c. case earliest_lead_time c (get_deployments db now days) of
                                        None \<Rightarrow> [] | Some t \<Rightarrow> [t])
                                (scope_commits db now tid eid days)) in
      if matched = [] then 0 else sum_list matched / real (length matched))"

text \<open>A storage whose deployments table returns a later deployment before an earlier
  one: one commit at time 0, deployments of its repository after 10 days and after 5
  days, read on day 11.\<close>

definition out_of_order_db :: database where
  "out_of_order_db =
     \<lparr> engineers = [], teams = [],
       commits = [\<lparr> author_id = None, repository_id = Some 1, committed_at = 0,
                    additions = 10, deletions = 0, changed_files = 1 \<rparr>],
       pull_requests = [],
       deployments = [\<lparr> dep_id = 1, dep_repository_id = Some 1, status = Some ''success'',
                        deployed_at = 864000000000 \<rparr>,
                      \<lparr> dep_id = 2, dep_repository_id = Some 1, status = Some ''success'',
                        deployed_at = 432000000000 \<rparr>],
       incidents = [] \<rparr>"

text \<open>One repository with two stored commits and one pull request.\<close>

definition one_repo :: "repo list" where
  "one_repo =
     [\<lparr> full_name = ''acme/app'',
        sync_repository_data = Inr [(''commits_stored'', 2), (''pull_requests_stored'', 1)],
        get_repository_commits =
          Inr [[(''additions'', 30), (''deletions'', 10), (''changed_files'', 2)],
               [(''additions'', 5), (''deletions'', 5), (''changed_files'', 1)]] \<rparr>]"

definition empty_db :: database where
  "empty_db = \<lparr> engineers = [], teams = [], commits = [], pull_requests = [],
                 deployments = [], incidents = [] \<rparr>"

text \<open>Two worlds that differ in nothing but the draws of the random module.\<close>

definition world_a :: world where
  "world_a = \<lparr> storage = Inr empty_db, utcnow = 0, get_repos = Inr one_repo,
                random_source = (\<lambda>k. 0) \<rparr>"

definition world_b :: world where
  "world_b = \<lparr> storage = Inr empty_db, utcnow = 0, get_repos = Inr one_repo,
                random_source = (\<lambda>k. 1 / 2) \<rparr>"

text \<open>A summary on which the analysis does not raise: every metric it reads is a
  number or absent, and the period is a number other than zero.\<close>

definition analysable :: "pydict \<Rightarrow> bool" where
  "analysable data =
     (metric data ''code_quality'' ''total_churn'' 0 \<noteq> None \<and>
      metric data ''code_quality'' ''churn_rate'' 0 \<noteq> None \<and>
      metric data ''code_quality'' ''risk_score'' 0 \<noteq> None \<and>
      metric data ''dora_metrics'' ''change_failure_rate'' 0 \<noteq> None \<and>
      metric data ''dora_metrics'' ''lead_time_days'' 0 \<noteq> None \<and>
      metric data ''review_metrics'' ''review_participation_rate'' 100 \<noteq> None \<and>
      metric data ''review_metrics'' ''review_participation_rate'' 0 \<noteq> None \<and>
      metric data ''basic_stats'' ''total_commits'' 0 \<noteq> None \<and>
      (case dict_get data ''period_days'' (VNum 7) of VNum p \<Rightarrow> p \<noteq> 0 | _ \<Rightarrow> False))"

text \<open>A summary whose readings are far inside the range of a \<^verbatim>\<open>float\<close>, so that no
  conversion of an \<^verbatim>\<open>int\<close> and no division of two of them overflows.\<close>

definition float_sized :: "real option \<Rightarrow> bool" where
  "float_sized r = (case r of None \<Rightarrow> True | Some x \<Rightarrow> \<bar>x\<bar> \<le> 10 ^ 300)"

definition within_float_range :: "pydict \<Rightarrow> bool" where
  "within_float_range data =
     (float_sized (metric data ''code_quality'' ''total_churn'' 0) \<and>
      float_sized (metric data ''code_quality'' ''churn_rate'' 0) \<and>
      float_sized (metric data ''code_quality'' ''risk_score'' 0) \<and>
      float_sized (metric data ''dora_metrics'' ''change_failure_rate'' 0) \<and>
      float_sized (metric data ''dora_metrics'' ''lead_time_days'' 0) \<and>
      float_sized (metric data ''review_metrics'' ''review_participation_rate'' 100) \<and>
      float_sized (metric data ''basic_stats'' ''total_commits'' 0) \<and>
      (case dict_get data ''period_days'' (VNum 7) of VNum p \<Rightarrow> \<bar>p\<bar> \<le> 10 ^ 300 | _ \<Rightarrow> True))"

text \<open>A summary with all four sub-groups, the same summary without one of them, with a
  zero period, and with a sub-group that is a string.\<close>

definition full_summary :: pydict where
  "full_summary =
     [(''period_days'', VNum 7),
      (''basic_stats'', VDict
         [(''total_commits'', VNum 14), (''total_pull_requests'', VNum 3),
          (''lines_added'', VNum 900), (''lines_deleted'', VNum 300),
          (''files_changed'', VNum 40)]),
      (''dora_metrics'', VDict
         [(''lead_time_days'', VNum 2), (''deployment_frequency'', VNum 1),
          (''change_failure_rate'', VNum 5), (''mttr_hours'', VNum 4)]),
      (''code_quality'', VDict
         [(''total_churn'', VNum 1200), (''churn_rate'', VNum 85),
          (''risk_score'', VNum 20), (''high_risk_files'', VNum 0)]),
      (''review_metrics'', VDict
         [(''avg_review_time_hours'', VNum 8.5), (''review_participation_rate'', VNum 85),
          (''pr_cycle_time_hours'', VNum 24), (''approval_rate'', VNum 92)])]"

definition drop_group :: "string \<Rightarrow> pydict \<Rightarrow> pydict" where
  "drop_group g d = filter (\<lambda>kv. fst kv \<noteq> g) d"

definition state_with :: "pydict \<Rightarrow> agent_state" where
  "state_with d = (initial_state ''weekly'' None None 7)\<lparr> raw_data := Some d \<rparr>"

definition zero_period_summary :: pydict where
  "zero_period_summary = (''period_days'', VNum 0) # full_summary"

definition text_group_summary :: pydict where
  "text_group_summary = (''code_quality'', VStr ''n/a'') # full_summary"

text \<open>A rendering of exceptions for the examples below, which raise a collaborator's
  exception (its own message), a division by zero of integers, or an exception whose
  text they do not read.\<close>

fun example_str :: "pyexc \<Rightarrow> string" where
  "example_str (CollaboratorError m) = m"
| "example_str ZeroDivisionError = ''division by zero''"
| "example_str e = ''exception''"

text \<open>A storage that is down, and collaborators of the narration that always answer.\<close>

definition down_world :: world where
  "down_world = \<lparr> storage = Inl (CollaboratorError ''database is locked''), utcnow = 0,
                   get_repos = Inr [], random_source = (\<lambda>k. 0) \<rparr>"

definition mock_env :: narrator_env where
  "mock_env =
     \<lparr> tables = \<lparr> isspace = (\<lambda>c. c \<in> {9, 10, 11, 12, 13, 32}),
                  isdigit = (\<lambda>c. 48 \<le> c \<and> c \<le> 57),
                  lower = map (\<lambda>c. if 65 \<le> c \<and> c \<le> 90 then c + 32 else c) \<rparr>,
       format_prompt = (\<lambda>d. Inr []),
       generate_text = (\<lambda>p. Inr (ustr_of ''- Consistent delivery cadence across the team'')),
       create_narrative = (\<lambda>d a ins. concat ins) \<rparr>"

section \<open>Properties of the analysis engine\<close>

lemma metricD:
  "metric data g k d = Some x \<Longrightarrow> py_get (dict_get data g (VDict [])) k (VNum d) = Inr (VNum x)"
  by (auto simp: metric_def split: sum.splits pyval.splits)

lemma scenario_metrics:
  "metric scenario ''dora_metrics'' ''change_failure_rate'' 0 = Some 20"
  "metric scenario ''dora_metrics'' ''lead_time_days'' 0 = Some 2"
  "metric scenario ''code_quality'' ''risk_score'' 0 = Some 50"
  "metric scenario ''code_quality'' ''churn_rate'' 0 = Some 250"
  "metric scenario ''code_quality'' ''total_churn'' 0 = Some 6000"
  "metric scenario ''review_metrics'' ''review_participation_rate'' 100 = Some 80"
  "metric scenario ''basic_stats'' ''total_commits'' 0 = Some 14"
  by (simp_all add: metric_def scenario_def py_get_def dict_get_def)

lemma analyze_churn_patterns_value:
  assumes "metric data ''code_quality'' ''total_churn'' 0 = Some tc"
    and "metric data ''code_quality'' ''churn_rate'' 0 = Some cr"
    and "metric data ''code_quality'' ''risk_score'' 0 = Some rs"
  shows "analyze_churn_patterns data = Inr \<lparr> ca_total_churn = tc, ca_churn_rate = cr,
     churn_level = (if cr > 200 then ''HIGH'' else if cr > 100 then ''MODERATE'' else ''LOW''),
     ca_risk_score = rs,
     ca_recommendations =
       (if cr > 200 then [''Consider breaking down large changes'', ''Increase code review rigor'']
        else if cr > 100 then [''Monitor for refactoring opportunities'',
                               ''Maintain current review practices'']
        else [''Churn levels are healthy'', ''Continue current practices'']),
     ca_patterns = \<lparr> large_changes = cr > 150, frequent_modifications = tc > 5000,
                     risk_threshold_exceeded = rs > 70 \<rparr> \<rparr>"
  using assms[THEN metricD]
  by (simp add: analyze_churn_patterns_def Let_def bind_r_def py_gt_def py_num_def)

text \<open>
  Claim C6. For every summary whose three code-quality readings are numbers (absent ones
  read as 0), \<^verbatim>\<open>_analyze_churn_patterns\<close> returns; the churn level is HIGH exactly when
  \<open>churn_rate > 200\<close>, MODERATE exactly when \<open>100 < churn_rate \<le> 200\<close> and LOW
  exactly when \<open>churn_rate \<le> 100\<close>; the recommendation list is the fixed one of the
  level; and the three pattern flags are \<open>churn_rate > 150\<close>, \<open>total_churn > 5000\<close>
  and \<open>risk_score > 70\<close>, each a function of its own reading only.
\<close>

theorem churn_classification:
  assumes "metric data ''code_quality'' ''total_churn'' 0 = Some tc"
    and "metric data ''code_quality'' ''churn_rate'' 0 = Some cr"
    and "metric data ''code_quality'' ''risk_score'' 0 = Some rs"
  shows "\<exists>r. analyze_churn_patterns data = Inr r \<and>
     (churn_level r = ''HIGH'' \<longleftrightarrow> cr > 200) \<and>
     (churn_level r = ''MODERATE'' \<longleftrightarrow> 100 < cr \<and> cr \<le> 200) \<and>
     (churn_level r = ''LOW'' \<longleftrightarrow> cr \<le> 100) \<and>
     ca_recommendations r =
       (if churn_level r = ''HIGH'' then
          [''Consider breaking down large changes'', ''Increase code review rigor'']
        else if churn_level r = ''MODERATE'' then
          [''Monitor for refactoring opportunities'', ''Maintain current review practices'']
        else [''Churn levels are healthy'', ''Continue current practices'']) \<and>
     large_changes (ca_patterns r) = (cr > 150) \<and>
     frequent_modifications (ca_patterns r) = (tc > 5000) \<and>
     risk_threshold_exceeded (ca_patterns r) = (rs > 70)"
  unfolding analyze_churn_patterns_value[OF assms] by simp

theorem churn_classification_witness:
  "metric scenario ''code_quality'' ''total_churn'' 0 = Some 6000 \<and>
   metric scenario ''code_quality'' ''churn_rate'' 0 = Some 250 \<and>
   metric scenario ''code_quality'' ''risk_score'' 0 = Some 50 \<and>
   (\<exists>r. analyze_churn_patterns scenario = Inr r \<and> churn_level r = ''HIGH'' \<and>
       large_changes (ca_patterns r) \<and> frequent_modifications (ca_patterns r) \<and>
       \<not> risk_threshold_exceeded (ca_patterns r))"
  using churn_classification[OF scenario_metrics(5) scenario_metrics(4) scenario_metrics(3)]
    scenario_metrics
  by auto

lemma calculate_composite_risk_score_value:
  assumes "metric data ''dora_metrics'' ''change_failure_rate'' 0 = Some cfr"
    and "metric data ''dora_metrics'' ''lead_time_days'' 0 = Some lt"
    and "metric data ''code_quality'' ''risk_score'' 0 = Some rs"
  shows "calculate_composite_risk_score data =
           Inr (min 100 (cfr * 2 + rs * 0.5 + min 50 (lt * 5)))"
  using assms[THEN metricD]
  by (simp add: calculate_composite_risk_score_def Let_def bind_r_def py_num_def py_mul_int_def)

lemma assess_risk_factors_value:
  assumes "metric data ''dora_metrics'' ''change_failure_rate'' 0 = Some cfr"
    and "metric data ''dora_metrics'' ''lead_time_days'' 0 = Some lt"
    and "metric data ''code_quality'' ''risk_score'' 0 = Some rs"
    and "metric data ''review_metrics'' ''review_participation_rate'' 100 = Some rp"
  shows "assess_risk_factors data = Inr
     \<lparr> overall_risk_level =
         (if cfr > 15 \<or> rs > 60 then ''HIGH''
          else if lt > 7 \<or> rp < 70 then ''MODERATE'' else ''LOW''),
       identified_risks =
         (if triggered_risks cfr lt rs rp = [] then [''No significant risk factors identified'']
          else triggered_risks cfr lt rs rp),
       ra_risk_score = min 100 (cfr * 2 + rs * 0.5 + min 50 (lt * 5)),
       mitigation_strategies = suggest_mitigation_strategies
         (if triggered_risks cfr lt rs rp = [] then [''No significant risk factors identified'']
          else triggered_risks cfr lt rs rp) \<rparr>"
  using assms[THEN metricD] calculate_composite_risk_score_value[OF assms(1-3)]
  by (simp add: assess_risk_factors_def Let_def bind_r_def py_gt_def py_lt_def py_num_def
        triggered_risks_def)

text \<open>
  Claim C2. For every summary whose four readings are numbers (an absent failure rate,
  lead time or churn risk reads as 0, an absent review participation as 100),
  \<^verbatim>\<open>_assess_risk_factors\<close> returns; the level is HIGH exactly when the failure rate
  exceeds 15 or the churn risk exceeds 60, whatever the other checks say; it is MODERATE
  exactly when it is not HIGH and the lead time exceeds 7 or the participation is below
  70; it is LOW otherwise; the identified risks are the messages of the checks that fire,
  in check order, or the single message that no risk was found; and the list is never
  empty.
\<close>

theorem risk_assessment_policy:
  assumes "metric data ''dora_metrics'' ''change_failure_rate'' 0 = Some cfr"
    and "metric data ''dora_metrics'' ''lead_time_days'' 0 = Some lt"
    and "metric data ''code_quality'' ''risk_score'' 0 = Some rs"
    and "metric data ''review_metrics'' ''review_participation_rate'' 100 = Some rp"
  shows "\<exists>r. assess_risk_factors data = Inr r \<and>
     (overall_risk_level r = ''HIGH'' \<longleftrightarrow> cfr > 15 \<or> rs > 60) \<and>
     (overall_risk_level r = ''MODERATE'' \<longleftrightarrow> \<not> (cfr > 15 \<or> rs > 60) \<and> (lt > 7 \<or> rp < 70)) \<and>
     (overall_risk_level r = ''LOW'' \<longleftrightarrow> \<not> (cfr > 15 \<or> rs > 60) \<and> \<not> (lt > 7 \<or> rp < 70)) \<and>
     identified_risks r =
       (if triggered_risks cfr lt rs rp = [] then [''No significant risk factors identified'']
        else triggered_risks cfr lt rs rp) \<and>
     identified_risks r \<noteq> []"
  unfolding assess_risk_factors_value[OF assms] by simp

theorem risk_assessment_policy_witness:
  "metric scenario ''dora_metrics'' ''change_failure_rate'' 0 = Some 20 \<and>
   metric scenario ''dora_metrics'' ''lead_time_days'' 0 = Some 2 \<and>
   metric scenario ''code_quality'' ''risk_score'' 0 = Some 50 \<and>
   metric scenario ''review_metrics'' ''review_participation_rate'' 100 = Some 80 \<and>
   (\<exists>r. assess_risk_factors scenario = Inr r \<and> overall_risk_level r = ''HIGH'' \<and>
        identified_risks r = [''High change failure rate indicates quality issues''])"
  using risk_assessment_policy[OF scenario_metrics(1) scenario_metrics(2) scenario_metrics(3)
          scenario_metrics(6)] scenario_metrics
  by (auto simp: triggered_risks_def)

text \<open>
  Claim C3. For every summary with non-negative numeric failure rate, lead time and churn
  risk, \<^verbatim>\<open>_calculate_composite_risk_score\<close> returns
  \<open>min(100, failure_rate * 2 + risk_score * 0.5 + min(50, lead_time * 5))\<close>, a value
  between 0 and 100 however large the readings are, and the scenario with failure rate 20,
  churn risk 50 and lead time 2 gives exactly 75.
\<close>

theorem composite_risk_score:
  assumes "metric data ''dora_metrics'' ''change_failure_rate'' 0 = Some cfr"
    and "metric data ''dora_metrics'' ''lead_time_days'' 0 = Some lt"
    and "metric data ''code_quality'' ''risk_score'' 0 = Some rs"
    and "0 \<le> cfr" and "0 \<le> lt" and "0 \<le> rs"
  shows "\<exists>score. calculate_composite_risk_score data = Inr score \<and>
           score = min 100 (cfr * 2 + rs * 0.5 + min 50 (lt * 5)) \<and>
           0 \<le> score \<and> score \<le> 100 \<and>
           calculate_composite_risk_score scenario = Inr 75"
proof -
  have "calculate_composite_risk_score scenario = Inr 75"
    using calculate_composite_risk_score_value[OF scenario_metrics(1) scenario_metrics(2)
        scenario_metrics(3)] by simp
  moreover have "0 \<le> min 100 (cfr * 2 + rs * 0.5 + min 50 (lt * 5))"
    using assms(4-6) by simp
  ultimately show ?thesis
    unfolding calculate_composite_risk_score_value[OF assms(1-3)] by simp
qed

theorem composite_risk_score_witness:
  "metric scenario ''dora_metrics'' ''change_failure_rate'' 0 = Some 20 \<and>
   metric scenario ''dora_metrics'' ''lead_time_days'' 0 = Some 2 \<and>
   metric scenario ''code_quality'' ''risk_score'' 0 = Some 50 \<and>
   (0::real) \<le> 20 \<and> (0::real) \<le> 2 \<and> (0::real) \<le> 50 \<and>
   calculate_composite_risk_score scenario = Inr 75"
  using composite_risk_score[OF scenario_metrics(1) scenario_metrics(2) scenario_metrics(3)]
    scenario_metrics
  by auto


lemma calculate_quality_indicators_value:
  assumes "metric data ''basic_stats'' ''total_commits'' 0 = Some tc"
    and "dict_get data ''period_days'' (VNum 7) = VNum p" and "p \<noteq> 0"
    and "metric data ''dora_metrics'' ''change_failure_rate'' 0 = Some cfr"
    and "metric data ''review_metrics'' ''review_participation_rate'' 0 = Some rp"
  shows "calculate_quality_indicators data = Inr
     \<lparr> velocity_score = py_round (min 100 (tc / p * 10)) 1,
       quality_score = py_round (max 0 (100 - cfr * 5)) 1,
       collaboration_score = py_round rp 1,
       overall_score = py_round ((min 100 (tc / p * 10) + max 0 (100 - cfr * 5) + rp) / 3) 1,
       grade = score_to_grade ((min 100 (tc / p * 10) + max 0 (100 - cfr * 5) + rp) / 3) \<rparr>"
  using assms(1,4,5)[THEN metricD] assms(2,3)
  by (simp add: calculate_quality_indicators_def Let_def bind_r_def py_num_def py_truediv_def)

lemma metric_absent:
  "map_of data g = None \<Longrightarrow> metric data g k d = Some d"
  by (simp add: metric_def dict_get_def py_get_def)







section \<open>Properties of the metrics engine\<close>

lemma count_large: "sum_list (map (\<lambda>c. Suc 0) xs) = length xs"
  by (induction xs) simp_all

text \<open>
  Claim C5. For every non-empty list of commits the churn risk score is
  \<open>min(100, churn_rate / 10 + large_commit_ratio * 50)\<close>, where the churn rate is the
  total of additions and deletions divided by the number of commits and the ratio is the
  fraction of commits whose own additions and deletions exceed 300; for the empty list
  the score is 0. The \<^verbatim>\<open>risk_score\<close> of \<^verbatim>\<open>calculate_code_churn_metrics\<close> is this score
  of the commits in scope.
\<close>

theorem churn_risk_score:
  "(cs \<noteq> [] \<longrightarrow>
      churn_rate (churn_metrics_of cs) =
        real_of_int (total_churn (churn_metrics_of cs)) / real (length cs) \<and>
      calculate_churn_risk_score cs =
        min 100 (churn_rate (churn_metrics_of cs) / 10 + large_commit_ratio cs * 50)) \<and>
   calculate_churn_risk_score [] = 0 \<and>
   total_churn (churn_metrics_of cs) = (\<Sum>c\<leftarrow>cs. additions c + deletions c) \<and>
   risk_score (churn_metrics_of cs) = calculate_churn_risk_score cs \<and>
   risk_score (calculate_code_churn_metrics db now eid tid days) =
     calculate_churn_risk_score (scope_commits db now tid eid days)"
  by (simp add: calculate_churn_risk_score_def churn_metrics_of_def large_commit_ratio_def
        calculate_code_churn_metrics_def Let_def count_large)

theorem churn_risk_score_witness:
  "two_commits \<noteq> [] \<and> calculate_churn_risk_score two_commits = 55"
proof -
  have ne: "two_commits \<noteq> []" by (simp add: two_commits_def)
  have "churn_rate (churn_metrics_of two_commits) = 300"
    by (simp add: churn_metrics_of_def two_commits_def)
  moreover have "large_commit_ratio two_commits = 1 / 2"
    by (simp add: large_commit_ratio_def two_commits_def)
  ultimately show ?thesis
    using churn_risk_score[of two_commits] ne by simp
qed

text \<open>
  Claim C4. \<^verbatim>\<open>_calculate_lead_time\<close> takes, for a commit, the first deployment of the
  query result that is after the commit and in its repository. On a storage that returns
  the deployment of day 10 before the deployment of day 5, the commit of day 0 gets a lead
  time of 10 days, where the earliest deployment after it gives 5.
\<close>

theorem lead_time_takes_first_row:
  "calculate_lead_time out_of_order_db 950400000000 None None 30 = 10 \<and>
   lead_time_by_rule out_of_order_db 950400000000 None None 30 = 5"
  by (simp add: calculate_lead_time_def lead_time_by_rule_def earliest_lead_time_def eligible_def
        scope_commits_def truthy_id_def get_all_commits_def get_deployments_def cutoff_def
        total_seconds_def out_of_order_db_def)

text \<open>When the deployments come back in ascending order of \<^verbatim>\<open>deployed_at\<close>, the first
  match of the loop is the earliest deployment after the commit.\<close>

lemma first_deployment_after_eligible:
  "first_deployment_after c ds = (case eligible c ds of [] \<Rightarrow> None | d # _ \<Rightarrow> Some d)"
  by (induction ds) (simp_all add: eligible_def)

lemma fold_min_sorted:
  "sorted (x # xs) \<Longrightarrow> fold min xs (x::int) = x"
proof (induction xs arbitrary: x)
  case Nil then show ?case by simp
next
  case (Cons y ys)
  then have "min y x = x" by simp
  moreover have "sorted (x # ys)" using Cons.prems by auto
  ultimately show ?case using Cons.IH[of x] by simp
qed

lemma first_is_earliest_when_sorted:
  assumes "sorted (map deployed_at ds)"
  shows "map_option (\<lambda>d. total_seconds (deployed_at d - committed_at c) / 86400)
           (first_deployment_after c ds) = earliest_lead_time c ds"
proof -
  have "sorted (map deployed_at (eligible c ds))"
    unfolding eligible_def using assms by (simp add: sorted_filter)
  then show ?thesis
    unfolding first_deployment_after_eligible earliest_lead_time_def
    by (cases "eligible c ds") (simp_all add: fold_min_sorted)
qed

section \<open>Properties of the insight parser\<close>

lemma split_on_pieces: "split_on sep s = pieces sep s"
proof (induction s)
  case Nil
  show ?case by (simp add: pieces.simps)
next
  case (Cons c s)
  let ?P = "\<lambda>c. c \<noteq> sep"
  show ?case
  proof (cases "c = sep")
    case True
    then show ?thesis using Cons.IH by (simp add: pieces.simps[of sep "sep # s"])
  next
    case False
    then have D: "dropWhile ?P (c # s) = dropWhile ?P s"
      and T: "takeWhile ?P (c # s) = c # takeWhile ?P s" by simp_all
    note IH = Cons.IH
    show ?thesis
    proof (cases "dropWhile ?P s")
      case Nil
      have "pieces sep s = [s]"
        by (subst pieces.simps) (simp only: Nil list.case)
      moreover have "pieces sep (c # s) = [c # s]"
        by (subst pieces.simps) (simp only: D Nil list.case)
      ultimately show ?thesis using False IH by simp
    next
      case (Cons x rest)
      have "pieces sep s = takeWhile ?P s # pieces sep rest"
        by (subst pieces.simps) (simp only: Cons list.case)
      moreover have "pieces sep (c # s) = (c # takeWhile ?P s) # pieces sep rest"
        by (subst pieces.simps) (simp only: D T Cons list.case)
      ultimately show ?thesis using False IH by simp
    qed
  qed
qed

lemma py_strip_trim: "py_strip T s = trim T s"
proof -
  have "rev (dropWhile (isspace T) (rev t)) =
          take (length t - length (takeWhile (isspace T) (rev t))) t" for t
    by (simp add: dropWhile_eq_drop[of "isspace T" "rev t"] rev_drop)
  then show ?thesis
    by (simp add: py_strip_def trim_def Let_def dropWhile_eq_drop[of "isspace T" s])
qed

lemma strip_chars_lead: "c \<in> set strip_chars \<longleftrightarrow> lead_char c"
proof
  assume "c \<in> set strip_chars"
  then show "lead_char c"
    by (auto simp: strip_chars_def ustr_of_def bullet_def lead_char_def)
next
  assume "lead_char c"
  then consider "48 \<le> c \<and> c \<le> 57" | "c = 46 \<or> c = 45 \<or> c = 8226 \<or> c = 42 \<or> c = 32"
    by (auto simp: lead_char_def)
  then show "c \<in> set strip_chars"
  proof cases
    case 1
    then have "c = 48 \<or> c = 49 \<or> c = 50 \<or> c = 51 \<or> c = 52 \<or> c = 53 \<or> c = 54 \<or> c = 55 \<or>
               c = 56 \<or> c = 57" by arith
    then show ?thesis by (auto simp: strip_chars_def ustr_of_def)
  next
    case 2
    then show ?thesis by (auto simp: strip_chars_def ustr_of_def bullet_def)
  qed
qed

lemma py_lstrip_without_lead: "py_lstrip_chars strip_chars s = without_lead s"
  by (simp add: py_lstrip_chars_def without_lead_def strip_chars_lead dropWhile_eq_drop)

lemma starts_with_prefix: "starts_with s p \<longleftrightarrow> prefix p s"
  by (induction s p rule: starts_with.induct) auto

lemma contains_sublist: "contains s sub \<longleftrightarrow> sublist sub s"
  by (induction s) (auto simp: sublist_Cons_right starts_with_prefix)

lemma ustr_literals:
  "ustr_of ''-'' = [45]" "ustr_of ''*'' = [42]" "ustr_of ''.'' = [46]"
  "ustr_of ''team'' = [116, 101, 97, 109]"
  "ustr_of ''performance'' = [112, 101, 114, 102, 111, 114, 109, 97, 110, 99, 101]"
  by (simp_all add: ustr_of_def)

lemma is_candidate_qualifies: "is_candidate T line = Inr (qualifies T line)"
  by (cases line)
     (auto simp: is_candidate_def qualifies_def py_index0_def bind_r_def ustr_literals bullet_def)

lemma scan_line_value:
  "scan_line T l acc =
     Inr (acc @ filter (\<lambda>c. length c > 20)
                  (map (\<lambda>l. trim T (without_lead l)) (filter (qualifies T) [trim T l])))"
  by (auto simp: scan_line_def is_candidate_qualifies bind_r_def Let_def
        py_strip_trim py_lstrip_without_lead)

lemma scan_lines_value:
  "scan_lines T ls acc =
     Inr (acc @ filter (\<lambda>c. length c > 20)
                  (map (\<lambda>l. trim T (without_lead l)) (filter (qualifies T) (map (trim T) ls))))"
proof (induction ls arbitrary: acc)
  case Nil
  show ?case by simp
next
  case (Cons l ls)
  show ?case
    by (simp add: scan_line_value Cons.IH del: filter.simps)
       (simp)
qed

lemma scan_sentences_value:
  "scan_sentences T xs acc =
     acc @ map (\<lambda>s. s @ [46])
             (filter (\<lambda>x. length x > 30 \<and>
                    (sublist [116, 101, 97, 109] (lower T x) \<or>
                     sublist [112, 101, 114, 102, 111, 114, 109, 97, 110, 99, 101] (lower T x)))
                     (map (trim T) xs))"
  by (induction xs arbitrary: acc)
     (simp_all add: scan_sentence_def Let_def ustr_literals contains_sublist py_strip_trim)

lemma parse_by_rule: "parse_insights_from_response T s = Inr (insights_by_rule T s)"
  by (simp add: parse_insights_from_response_def insights_by_rule_def scan_lines_value
        scan_sentences_value bind_r_def kept_lines_def kept_sentences_def qualifying_lines_def
        split_on_pieces Let_def)

lemmas parser_eval =
  parse_insights_from_response_def ustr_of_def bind_r_def scan_line_def is_candidate_def
  py_index0_def py_strip_def py_lstrip_chars_def strip_chars_def bullet_def ascii_tables_def
  scan_sentence_def Let_def

lemma short_line_parsed:
  "parse_insights_from_response ascii_tables short_line_response =
     Inr [ustr_of ''short line x'' @ [10] @
          ustr_of ''The Team Performance is really great overall today.'']"
  by (simp add: parser_eval short_line_response_def)

lemma short_line_qualifies:
  "qualifying_lines ascii_tables short_line_response \<noteq> []"
proof -
  have "pieces 10 short_line_response =
          [ustr_of ''1. short line x'',
           ustr_of ''The Team Performance is really great overall today. Fine.'']"
    unfolding split_on_pieces[symmetric] by (simp add: short_line_response_def ustr_of_def)
  moreover have "trim ascii_tables (ustr_of ''1. short line x'') = ustr_of ''1. short line x''"
    unfolding py_strip_trim[symmetric] by (simp add: py_strip_def ustr_of_def ascii_tables_def)
  moreover have "qualifies ascii_tables (ustr_of ''1. short line x'')"
    by (simp add: qualifies_def ustr_of_def ascii_tables_def)
  ultimately show ?thesis by (simp add: qualifying_lines_def)
qed

lemma short_line_not_kept: "kept_lines ascii_tables short_line_response = []"
proof -
  have "parse_insights_from_response ascii_tables short_line_response
          = Inr (insights_by_rule ascii_tables short_line_response)"
    by (rule parse_by_rule)
  then have "insights_by_rule ascii_tables short_line_response =
     [ustr_of ''short line x'' @ [10] @
          ustr_of ''The Team Performance is really great overall today.'']"
    unfolding short_line_parsed by simp
  moreover have "scan_lines ascii_tables (split_on 10 short_line_response) [] = Inr []"
    by (simp add: parser_eval short_line_response_def)
  ultimately show ?thesis
    by (simp add: scan_lines_value kept_lines_def qualifying_lines_def split_on_pieces)
qed

text \<open>
  Claim C7, as stated, fails. In the response whose first line is \<open>1. short line x\<close>
  that line qualifies (it starts with a digit and has more than 10 characters) but is not
  kept (cleaned it has 12). The rule as stated ("if zero lines qualify") then returns
  nothing; the parser falls back to the sentences and returns one.
\<close>

theorem fallback_when_a_line_qualifies:
  "qualifying_lines ascii_tables short_line_response \<noteq> [] \<and>
   insights_as_specified ascii_tables short_line_response = [] \<and>
   parse_insights_from_response ascii_tables short_line_response =
     Inr [ustr_of ''short line x'' @ [10] @
          ustr_of ''The Team Performance is really great overall today.''] \<and>
   parse_insights_from_response ascii_tables short_line_response \<noteq>
     Inr (insights_as_specified ascii_tables short_line_response)"
  using short_line_qualifies short_line_not_kept short_line_parsed
  by (simp add: insights_as_specified_def)

text \<open>
  Claim C7, amended. For every response text and whatever the Unicode tables are, the
  parser returns (it never raises) the list given by the rule: the trimmed lines that are
  non-empty, start with a digit, \<open>-\<close>, the bullet or \<open>*\<close> and are longer than 10
  characters, each stripped of its leading digits, dots, dashes, bullets, stars and
  blanks and of surrounding whitespace and kept when longer than 20 characters; when no
  line is kept (rather than: when no line qualifies), the trimmed sentences between dots
  that are longer than 30 characters and contain "team" or "performance" in lower case,
  each with its dot put back; in both cases at most the first 5 in the order of the text.
  The result is a function of the text, and the empty text gives the empty list. On the
  response with numbered, dashed, bulleted and starred lines the parser returns the four
  cleaned lines in order, and of six lines to keep it returns the first five.
\<close>

theorem insight_parsing:
  "parse_insights_from_response T s = Inr (insights_by_rule T s) \<and>
   length (insights_by_rule T s) \<le> 5 \<and>
   parse_insights_from_response T [] = Inr [] \<and>
   parse_insights_from_response ascii_tables marked_response =
     Inr [ustr_of ''Steady Pace**: The team keeps a steady pace'',
          ustr_of ''Monitor file churn patterns weekly'',
          ustr_of ''Consider implementing automated testing'',
          ustr_of ''Continue the strong code review culture''] \<and>
   parse_insights_from_response ascii_tables long_response =
     Inr [ustr_of ''Steady delivery pace this week'',
          ustr_of ''Review times within standards'',
          ustr_of ''Low failure rate in deployments'',
          ustr_of ''Lead time could be improved'',
          ustr_of ''Churn is balanced across files'']"
proof -
  have 2: "parse_insights_from_response T [] = Inr []"
    by (simp add: parse_insights_from_response_def bind_r_def scan_line_def is_candidate_def
          py_strip_def scan_sentence_def Let_def)
  have 3: "parse_insights_from_response ascii_tables marked_response =
     Inr [ustr_of ''Steady Pace**: The team keeps a steady pace'',
          ustr_of ''Monitor file churn patterns weekly'',
          ustr_of ''Consider implementing automated testing'',
          ustr_of ''Continue the strong code review culture'']"
    by (simp add: parser_eval marked_response_def)
  have 4: "parse_insights_from_response ascii_tables long_response =
     Inr [ustr_of ''Steady delivery pace this week'',
          ustr_of ''Review times within standards'',
          ustr_of ''Low failure rate in deployments'',
          ustr_of ''Lead time could be improved'',
          ustr_of ''Churn is balanced across files'']"
    by (simp add: parser_eval long_response_def)
  show ?thesis using parse_by_rule[of T s] 2 3 4 by (simp add: insights_by_rule_def)
qed

theorem insight_parsing_witness:
  "insights_by_rule ascii_tables marked_response =
     [ustr_of ''Steady Pace**: The team keeps a steady pace'',
      ustr_of ''Monitor file churn patterns weekly'',
      ustr_of ''Consider implementing automated testing'',
      ustr_of ''Continue the strong code review culture''] \<and>
   insights_by_rule ascii_tables short_line_response =
     [ustr_of ''short line x'' @ [10] @
      ustr_of ''The Team Performance is really great overall today.'']"
  using insight_parsing[of ascii_tables marked_response]
    insight_parsing[of ascii_tables short_line_response] short_line_parsed
  by simp

section \<open>Properties of the bootstrap harvest\<close>

lemma stats_a:
  "metric (bootstrap_stats one_repo 7 (\<lambda>k. 0)) ''review_metrics'' ''approval_rate'' 0 = Some 85"
  by (simp add: bootstrap_stats_def Let_def split_def uniform_def randint_def metric_def
        dict_get_def py_get_def py_round_def round_half_even_def)

lemma stats_b:
  "metric (bootstrap_stats one_repo 7 (\<lambda>k. 1 / 2)) ''review_metrics'' ''approval_rate'' 0
     = Some 91.5"
  by (simp add: bootstrap_stats_def Let_def split_def uniform_def randint_def metric_def
        dict_get_def py_get_def py_round_def round_half_even_def)

text \<open>
  Claim C9, as stated, fails: with no team registered, the same storage, the same
  repositories, the same sync counts and the same commits, two runs whose random module
  draws differently return different summaries.
\<close>

theorem bootstrap_not_deterministic:
  "storage world_a = storage world_b \<and> get_repos world_a = get_repos world_b \<and>
   utcnow world_a = utcnow world_b \<and> teams empty_db = [] \<and>
   get_overall_stats world_a empty_db 7 \<noteq> get_overall_stats world_b empty_db 7"
proof -
  have "bootstrap_stats one_repo 7 (\<lambda>k. 0) \<noteq> bootstrap_stats one_repo 7 (\<lambda>k. 1 / 2)"
    using stats_a stats_b by auto
  then show ?thesis
    by (simp add: get_overall_stats_def world_a_def world_b_def empty_db_def bind_r_def)
qed

text \<open>
  Claim C9, amended. The summary of the bootstrap path is a function of the repositories
  (with their sync counts and commits), the period and the draws of the random module.
  Whatever the draws are, two runs on the same repositories and period agree on
  \<^verbatim>\<open>period_days\<close>, on the whole of \<^verbatim>\<open>basic_stats\<close>, on \<^verbatim>\<open>deployment_frequency\<close>, on
  \<^verbatim>\<open>total_churn\<close> and on \<^verbatim>\<open>churn_rate\<close>.
\<close>

theorem bootstrap_deterministic_part:
  "map_of (bootstrap_stats repos days r1) ''period_days'' =
     map_of (bootstrap_stats repos days r2) ''period_days'' \<and>
   map_of (bootstrap_stats repos days r1) ''basic_stats'' =
     map_of (bootstrap_stats repos days r2) ''basic_stats'' \<and>
   metric (bootstrap_stats repos days r1) ''dora_metrics'' ''deployment_frequency'' 0 =
     metric (bootstrap_stats repos days r2) ''dora_metrics'' ''deployment_frequency'' 0 \<and>
   metric (bootstrap_stats repos days r1) ''code_quality'' ''total_churn'' 0 =
     metric (bootstrap_stats repos days r2) ''code_quality'' ''total_churn'' 0 \<and>
   metric (bootstrap_stats repos days r1) ''code_quality'' ''churn_rate'' 0 =
     metric (bootstrap_stats repos days r2) ''code_quality'' ''churn_rate'' 0"
  by (simp add: bootstrap_stats_def Let_def split_def metric_def dict_get_def py_get_def)

section \<open>Properties of the pipeline stages\<close>

lemma metric_SomeI:
  "py_get (dict_get data g (VDict [])) k (VNum d) = Inr v \<Longrightarrow> py_num v = Inr x \<Longrightarrow>
   metric data g k d = Some x"
  by (auto simp: metric_def py_num_def split: pyval.splits)

lemma churn_returns:
  assumes "analyze_churn_patterns data = Inr r"
  shows "metric data ''code_quality'' ''total_churn'' 0 \<noteq> None \<and>
         metric data ''code_quality'' ''churn_rate'' 0 \<noteq> None \<and>
         metric data ''code_quality'' ''risk_score'' 0 \<noteq> None"
  using assms
  by (auto simp: analyze_churn_patterns_def Let_def bind_r_def py_gt_def
      split: sum.splits if_splits intro: metric_SomeI)

lemma assess_returns:
  assumes "assess_risk_factors data = Inr r"
  shows "metric data ''dora_metrics'' ''change_failure_rate'' 0 \<noteq> None \<and>
         metric data ''dora_metrics'' ''lead_time_days'' 0 \<noteq> None \<and>
         metric data ''code_quality'' ''risk_score'' 0 \<noteq> None \<and>
         metric data ''review_metrics'' ''review_participation_rate'' 100 \<noteq> None"
  using assms
  by (auto simp: assess_risk_factors_def Let_def bind_r_def py_gt_def py_lt_def
      split: sum.splits if_splits intro: metric_SomeI)

lemma quality_returns:
  assumes "calculate_quality_indicators data = Inr r"
  shows "metric data ''basic_stats'' ''total_commits'' 0 \<noteq> None \<and>
         metric data ''dora_metrics'' ''change_failure_rate'' 0 \<noteq> None \<and>
         metric data ''review_metrics'' ''review_participation_rate'' 0 \<noteq> None \<and>
         (case dict_get data ''period_days'' (VNum 7) of VNum p \<Rightarrow> p \<noteq> 0 | _ \<Rightarrow> False)"
  using assms
  by (auto simp: calculate_quality_indicators_def Let_def bind_r_def py_truediv_def
      split: sum.splits if_splits intro: metric_SomeI)
     (auto simp: py_num_def split: pyval.splits)

lemma analyze_returns_iff: "(\<exists>a. analyze data = Inr a) \<longleftrightarrow> analysable data"
proof
  assume "\<exists>a. analyze data = Inr a"
  then obtain ca ra qi where "analyze_churn_patterns data = Inr ca"
      "assess_risk_factors data = Inr ra" "calculate_quality_indicators data = Inr qi"
    by (auto simp: analyze_def bind_r_def split: sum.splits)
  then show "analysable data"
    using churn_returns assess_returns quality_returns unfolding analysable_def by blast
next
  assume a: "analysable data"
  then obtain tc cr rs cfr lt rp rp0 n p where m:
      "metric data ''code_quality'' ''total_churn'' 0 = Some tc"
      "metric data ''code_quality'' ''churn_rate'' 0 = Some cr"
      "metric data ''code_quality'' ''risk_score'' 0 = Some rs"
      "metric data ''dora_metrics'' ''change_failure_rate'' 0 = Some cfr"
      "metric data ''dora_metrics'' ''lead_time_days'' 0 = Some lt"
      "metric data ''review_metrics'' ''review_participation_rate'' 100 = Some rp"
      "metric data ''review_metrics'' ''review_participation_rate'' 0 = Some rp0"
      "metric data ''basic_stats'' ''total_commits'' 0 = Some n"
      "dict_get data ''period_days'' (VNum 7) = VNum p" "p \<noteq> 0"
    unfolding analysable_def by (auto split: pyval.splits)
  show "\<exists>a. analyze data = Inr a"
    unfolding analyze_def
      analyze_churn_patterns_value[OF m(1) m(2) m(3)]
      assess_risk_factors_value[OF m(4) m(5) m(3) m(6)]
      calculate_quality_indicators_value[OF m(8) m(9) m(10) m(4) m(7)]
    by (simp add: bind_r_def)
qed

lemma diff_analyst_execute_cases:
  assumes "\<not> error_set s" and "raw_data s = Some data" and "data \<noteq> []"
  shows "(analysable data \<longrightarrow>
            (\<exists>a. analyze data = Inr a \<and>
                 diff_analyst_execute str s = s\<lparr> analysis_results := Some a \<rparr>)) \<and>
         (\<not> analysable data \<longrightarrow>
            (\<exists>e. analyze data = Inl e \<and>
                 diff_analyst_execute str s =
                   s\<lparr> error := Some (''Diff analysis failed: '' @ str e) \<rparr>))"
proof (cases "analyze data")
  case (Inl e)
  then have "\<not> analysable data" using analyze_returns_iff[of data] by simp
  then show ?thesis using assms Inl by (simp add: diff_analyst_execute_def)
next
  case (Inr a)
  then have "analysable data" using analyze_returns_iff[of data] by blast
  then show ?thesis using assms Inr by (simp add: diff_analyst_execute_def)
qed

lemma map_of_drop_group:
  "map_of (drop_group g data) g' = (if g' = g then None else map_of data g')"
  by (induction data) (auto simp: drop_group_def)

lemma metric_drop_group:
  "metric (drop_group g data) g' k d = (if g' = g then Some d else metric data g' k d)"
  by (simp add: metric_def dict_get_def map_of_drop_group py_get_def)

lemma period_drop_group:
  "dict_get (drop_group g data) ''period_days'' (VNum 7) =
     (if g = ''period_days'' then VNum 7 else dict_get data ''period_days'' (VNum 7))"
  by (simp add: dict_get_def map_of_drop_group)

lemma analysable_drop_group: "analysable data \<Longrightarrow> analysable (drop_group g data)"
  by (simp add: analysable_def metric_drop_group period_drop_group)

lemma within_float_range_drop_group:
  "within_float_range data \<Longrightarrow> within_float_range (drop_group g data)"
  by (simp add: within_float_range_def metric_drop_group period_drop_group float_sized_def)

text \<open>
  Claim C8, amended. For every state without error whose summary is present and not
  empty: when a sub-group is present but is not a dictionary, when a metric the analysis
  reads is present but is not a number, or when the period is zero or not a number, the
  Analyze stage sets the error to a text that starts with \<open>Diff analysis failed: \<close> and
  stores no analysis. A missing sub-group is none of these: its metrics read as the
  defaults, a summary on which the analysis does not raise stays one when a sub-group is
  taken away, and on such a summary with readings inside the float range the stage
  stores an analysis and leaves the error unset.
\<close>

theorem analysis_failure_policy:
  assumes "\<not> error_set s" and "raw_data s = Some data" and "data \<noteq> []"
  shows "(\<not> analysable data \<longrightarrow>
            (\<exists>m. diff_analyst_execute str s =
                    s\<lparr> error := Some (''Diff analysis failed: '' @ m) \<rparr>) \<and>
            error_set (diff_analyst_execute str s)) \<and>
         (analysable data \<and> within_float_range data \<longrightarrow>
            (\<exists>a. diff_analyst_execute str s = s\<lparr> analysis_results := Some a \<rparr>)) \<and>
         (analysable data \<longrightarrow> analysable (drop_group g data)) \<and>
         (within_float_range data \<longrightarrow> within_float_range (drop_group g data)) \<and>
         (map_of data g = None \<longrightarrow> metric data g k d = Some d)"
proof -
  have "error_set (s\<lparr> error := Some (''Diff analysis failed: '' @ m) \<rparr>)" for m
    by (simp add: error_set_def)
  then have "\<not> analysable data \<longrightarrow>
            (\<exists>m. diff_analyst_execute str s =
                    s\<lparr> error := Some (''Diff analysis failed: '' @ m) \<rparr>) \<and>
            error_set (diff_analyst_execute str s)"
    using diff_analyst_execute_cases[OF assms, where str = str] by metis
  moreover have "analysable data \<and> within_float_range data \<longrightarrow>
            (\<exists>a. diff_analyst_execute str s = s\<lparr> analysis_results := Some a \<rparr>)"
    using diff_analyst_execute_cases[OF assms, where str = str] by blast
  ultimately show ?thesis
    using analysable_drop_group within_float_range_drop_group metric_absent by blast
qed

lemma full_summary_dropped:
  "analysable (drop_group ''code_quality'' full_summary)"
  "analysable (drop_group ''dora_metrics'' full_summary)"
  "analysable (drop_group ''basic_stats'' full_summary)"
  "analysable (drop_group ''review_metrics'' full_summary)"
  "analysable full_summary"
  by (simp_all add: analysable_def metric_def drop_group_def full_summary_def py_get_def
        dict_get_def)

lemma full_summary_float_range: "within_float_range full_summary"
  by (simp add: within_float_range_def float_sized_def metric_def full_summary_def py_get_def
        dict_get_def)

lemma state_with_facts:
  "\<not> error_set (state_with d)" "raw_data (state_with d) = Some d" "error (state_with d) = None"
  by (simp_all add: state_with_def initial_state_def error_set_def)

lemma dropped_nonempty: "drop_group g full_summary \<noteq> []"
  by (auto simp: drop_group_def full_summary_def)

lemma no_error_when_analysable:
  assumes "analysable d" "d \<noteq> []"
  shows "error (diff_analyst_execute str (state_with d)) = None \<and>
         analysis_results (diff_analyst_execute str (state_with d)) \<noteq> None"
proof -
  from diff_analyst_execute_cases[OF state_with_facts(1) state_with_facts(2) assms(2),
      where str = str]
    assms(1)
  obtain a where
    "diff_analyst_execute str (state_with d) = (state_with d)\<lparr> analysis_results := Some a \<rparr>"
    by blast
  then show ?thesis by (simp add: state_with_facts)
qed

text \<open>
  Claim C8, as stated, fails: on the full summary without \<^verbatim>\<open>code_quality\<close>, without
  \<^verbatim>\<open>dora_metrics\<close>, without \<^verbatim>\<open>basic_stats\<close> or without \<^verbatim>\<open>review_metrics\<close>, the Analyze
  stage leaves the error unset and stores an analysis.
\<close>

theorem missing_group_sets_no_error:
  "map_of (drop_group ''code_quality'' full_summary) ''code_quality'' = None \<and>
   error (diff_analyst_execute example_str
            (state_with (drop_group ''code_quality'' full_summary))) = None \<and>
   analysis_results (diff_analyst_execute example_str
            (state_with (drop_group ''code_quality'' full_summary))) \<noteq> None \<and>
   map_of (drop_group ''dora_metrics'' full_summary) ''dora_metrics'' = None \<and>
   error (diff_analyst_execute example_str
            (state_with (drop_group ''dora_metrics'' full_summary))) = None \<and>
   analysis_results (diff_analyst_execute example_str
            (state_with (drop_group ''dora_metrics'' full_summary))) \<noteq> None \<and>
   map_of (drop_group ''basic_stats'' full_summary) ''basic_stats'' = None \<and>
   error (diff_analyst_execute example_str
            (state_with (drop_group ''basic_stats'' full_summary))) = None \<and>
   analysis_results (diff_analyst_execute example_str
            (state_with (drop_group ''basic_stats'' full_summary))) \<noteq> None \<and>
   map_of (drop_group ''review_metrics'' full_summary) ''review_metrics'' = None \<and>
   error (diff_analyst_execute example_str
            (state_with (drop_group ''review_metrics'' full_summary))) = None \<and>
   analysis_results (diff_analyst_execute example_str
            (state_with (drop_group ''review_metrics'' full_summary))) \<noteq> None"
proof -
  have "map_of (drop_group ''code_quality'' full_summary) ''code_quality'' = None"
       "map_of (drop_group ''dora_metrics'' full_summary) ''dora_metrics'' = None"
       "map_of (drop_group ''basic_stats'' full_summary) ''basic_stats'' = None"
       "map_of (drop_group ''review_metrics'' full_summary) ''review_metrics'' = None"
    by (simp_all add: map_of_drop_group)
  then show ?thesis
    using no_error_when_analysable[OF full_summary_dropped(1) dropped_nonempty,
        where str = example_str]
      no_error_when_analysable[OF full_summary_dropped(2) dropped_nonempty,
        where str = example_str]
      no_error_when_analysable[OF full_summary_dropped(3) dropped_nonempty,
        where str = example_str]
      no_error_when_analysable[OF full_summary_dropped(4) dropped_nonempty,
        where str = example_str]
    by blast
qed

theorem analysis_failure_policy_witness:
  "\<not> error_set (state_with full_summary) \<and>
   raw_data (state_with full_summary) = Some full_summary \<and> full_summary \<noteq> [] \<and>
   analysable full_summary \<and> within_float_range full_summary \<and>
   (\<exists>a. diff_analyst_execute example_str (state_with full_summary) =
          (state_with full_summary)\<lparr> analysis_results := Some a \<rparr>) \<and>
   analysable (drop_group ''review_metrics'' full_summary) \<and>
   within_float_range (drop_group ''review_metrics'' full_summary) \<and>
   map_of (drop_group ''review_metrics'' full_summary) ''review_metrics'' = None \<and>
   metric (drop_group ''review_metrics'' full_summary) ''review_metrics''
     ''review_participation_rate'' 100 = Some 100 \<and>
   (\<exists>a. diff_analyst_execute example_str
          (state_with (drop_group ''review_metrics'' full_summary)) =
          (state_with (drop_group ''review_metrics'' full_summary))\<lparr> analysis_results := Some a \<rparr>) \<and>
   \<not> analysable zero_period_summary \<and>
   error_set (diff_analyst_execute example_str (state_with zero_period_summary)) \<and>
   \<not> analysable text_group_summary \<and>
   error_set (diff_analyst_execute example_str (state_with text_group_summary))"
proof -
  have f: "full_summary \<noteq> []" by (simp add: full_summary_def)
  have z: "\<not> analysable zero_period_summary" "zero_period_summary \<noteq> []"
    by (simp_all add: analysable_def zero_period_summary_def dict_get_def)
  have t: "\<not> analysable text_group_summary" "text_group_summary \<noteq> []"
    by (simp_all add: analysable_def text_group_summary_def metric_def dict_get_def py_get_def)
  note full = analysis_failure_policy[OF state_with_facts(1) state_with_facts(2) f,
      where str = example_str and g = "''review_metrics''"]
  note dropped = analysis_failure_policy[OF state_with_facts(1) state_with_facts(2)
      dropped_nonempty, where str = example_str and g = "''review_metrics''"
      and k = "''review_participation_rate''" and d = 100]
  note zero = analysis_failure_policy[OF state_with_facts(1) state_with_facts(2) z(2),
      where str = example_str]
  note strg = analysis_failure_policy[OF state_with_facts(1) state_with_facts(2) t(2),
      where str = example_str]
  have d: "analysable (drop_group ''review_metrics'' full_summary)"
      "within_float_range (drop_group ''review_metrics'' full_summary)"
    using full full_summary_dropped(5) full_summary_float_range by blast+
  have m: "map_of (drop_group ''review_metrics'' full_summary) ''review_metrics'' = None"
    by (simp add: map_of_drop_group)
  show ?thesis
    using full dropped zero strg d m z(1) t(1) f state_with_facts full_summary_dropped(5)
      full_summary_float_range
    by blast
qed

text \<open>The pass-through of the later stages and the errors a run can set.\<close>

lemma analyst_passthrough: "error_set s \<Longrightarrow> diff_analyst_execute str s = s"
  by (simp add: diff_analyst_execute_def)

lemma narrator_passthrough: "error_set s \<Longrightarrow> insight_narrator_execute str env s = s"
  by (simp add: insight_narrator_execute_def)

lemma harvester_error:
  "error (harvester_execute str w (initial_state rt tid eid tp)) \<noteq> None \<Longrightarrow>
   error_set (harvester_execute str w (initial_state rt tid eid tp))"
  by (auto simp: harvester_execute_def initial_state_def error_set_def split: sum.splits)

text \<open>
  Claim C1. A stage that finds the error set returns the state as it is. In every run of
  \<^verbatim>\<open>process_request\<close>, when the harvest sets the error the result is the state the
  harvest returned, and when the analysis sets it the result is the state the analysis
  returned: the summary, the analysis, the insights and the narrative are those of that
  moment, and the result does not depend on the collaborators of the later stages. The
  early returns and the pass-through of the stages agree: the result is always the
  composition of the three stages. An error that a run sets is never the empty string, so
  it is seen as set.
\<close>

theorem short_circuit:
  "(\<forall>s. error_set s \<longrightarrow>
        diff_analyst_execute str s = s \<and> insight_narrator_execute str env s = s) \<and>
   (error_set (harvester_execute str w (initial_state rt tid eid tp)) \<longrightarrow>
      process_request str w env rt tid eid tp =
        harvester_execute str w (initial_state rt tid eid tp)) \<and>
   (error_set (diff_analyst_execute str (harvester_execute str w (initial_state rt tid eid tp))) \<longrightarrow>
      process_request str w env rt tid eid tp =
        diff_analyst_execute str (harvester_execute str w (initial_state rt tid eid tp))) \<and>
   process_request str w env rt tid eid tp =
     insight_narrator_execute str env
       (diff_analyst_execute str (harvester_execute str w (initial_state rt tid eid tp))) \<and>
   (error (process_request str w env rt tid eid tp) \<noteq> None \<longrightarrow>
      error_set (process_request str w env rt tid eid tp))"
proof -
  let ?s1 = "harvester_execute str w (initial_state rt tid eid tp)"
  let ?s2 = "diff_analyst_execute str ?s1"
  let ?s3 = "insight_narrator_execute str env ?s2"
  have P: "process_request str w env rt tid eid tp = ?s3"
    by (simp add: process_request_def Let_def analyst_passthrough narrator_passthrough)
  have e1: "error ?s1 \<noteq> None \<Longrightarrow> error_set ?s1" by (rule harvester_error)
  have e2: "error ?s2 \<noteq> None \<Longrightarrow> error_set ?s2"
    using e1 by (auto simp: diff_analyst_execute_def error_set_def
                      split: option.splits sum.splits if_splits)
  have e3: "error ?s3 \<noteq> None \<Longrightarrow> error_set ?s3"
    using e2 by (auto simp: insight_narrator_execute_def error_set_def
                      split: option.splits sum.splits if_splits)
  show ?thesis
    using P e3 by (simp add: analyst_passthrough narrator_passthrough)
qed

lemma analyze_zero_period:
  assumes "metric data ''code_quality'' ''total_churn'' 0 = Some tc"
    and "metric data ''code_quality'' ''churn_rate'' 0 = Some cr"
    and "metric data ''code_quality'' ''risk_score'' 0 = Some rs"
    and "metric data ''dora_metrics'' ''change_failure_rate'' 0 = Some cfr"
    and "metric data ''dora_metrics'' ''lead_time_days'' 0 = Some lt"
    and "metric data ''review_metrics'' ''review_participation_rate'' 100 = Some rp"
    and "metric data ''basic_stats'' ''total_commits'' 0 = Some n"
    and "dict_get data ''period_days'' (VNum 7) = VNum 0"
  shows "analyze data = Inl ZeroDivisionError"
proof -
  have "calculate_quality_indicators data = Inl ZeroDivisionError"
    using assms(7)[THEN metricD] assms(8)
    by (simp add: calculate_quality_indicators_def Let_def bind_r_def py_truediv_def py_num_def)
  then show ?thesis
    unfolding analyze_def analyze_churn_patterns_value[OF assms(1) assms(2) assms(3)]
      assess_risk_factors_value[OF assms(4) assms(5) assms(3) assms(6)]
    by (simp add: bind_r_def)
qed

lemma zero_period_stats:
  "metric (bootstrap_stats one_repo 0 (\<lambda>k. 0)) ''code_quality'' ''total_churn'' 0 = Some 50"
  "metric (bootstrap_stats one_repo 0 (\<lambda>k. 0)) ''code_quality'' ''churn_rate'' 0 = Some 25"
  "metric (bootstrap_stats one_repo 0 (\<lambda>k. 0)) ''code_quality'' ''risk_score'' 0 = Some 15"
  "metric (bootstrap_stats one_repo 0 (\<lambda>k. 0)) ''dora_metrics'' ''change_failure_rate'' 0 = Some 3"
  "metric (bootstrap_stats one_repo 0 (\<lambda>k. 0)) ''dora_metrics'' ''lead_time_days'' 0 = Some 1.5"
  "metric (bootstrap_stats one_repo 0 (\<lambda>k. 0)) ''review_metrics'' ''review_participation_rate'' 100
     = Some 70"
  "metric (bootstrap_stats one_repo 0 (\<lambda>k. 0)) ''basic_stats'' ''total_commits'' 0 = Some 2"
  "dict_get (bootstrap_stats one_repo 0 (\<lambda>k. 0)) ''period_days'' (VNum 7) = VNum 0"
  "bootstrap_stats one_repo 0 (\<lambda>k. 0) \<noteq> []"
  by (simp_all add: bootstrap_stats_def Let_def split_def uniform_def randint_def metric_def
        dict_get_def py_get_def py_round_def round_half_even_def one_repo_def process_repo_def
        int_get_def VInt_def)

lemma harvest_down:
  "harvester_execute example_str down_world (initial_state ''weekly'' None None 7) =
     (initial_state ''weekly'' None None 7)
       \<lparr> error := Some ''Data harvesting failed: database is locked'' \<rparr>"
  by (simp add: harvester_execute_def harvest_def down_world_def bind_r_def)

lemma harvest_zero_period:
  "harvester_execute example_str world_a (initial_state ''weekly'' None None 0) =
     (initial_state ''weekly'' None None 0)
       \<lparr> raw_data := Some (bootstrap_stats one_repo 0 (\<lambda>k. 0)) \<rparr>"
  by (simp add: harvester_execute_def harvest_def world_a_def bind_r_def get_overall_stats_def
        empty_db_def initial_state_def truthy_id_def)

lemma analyst_zero_period:
  "diff_analyst_execute example_str
     ((initial_state ''weekly'' None None 0)
        \<lparr> raw_data := Some (bootstrap_stats one_repo 0 (\<lambda>k. 0)) \<rparr>) =
   (initial_state ''weekly'' None None 0)
     \<lparr> raw_data := Some (bootstrap_stats one_repo 0 (\<lambda>k. 0)),
       error := Some ''Diff analysis failed: division by zero'' \<rparr>"
  using analyze_zero_period[OF zero_period_stats(1-8)] zero_period_stats(9)
  by (simp add: diff_analyst_execute_def error_set_def initial_state_def)

theorem short_circuit_witness:
  "error_set (harvester_execute example_str down_world (initial_state ''weekly'' None None 7)) \<and>
   process_request example_str down_world mock_env ''weekly'' None None 7 =
     (initial_state ''weekly'' None None 7)
       \<lparr> error := Some ''Data harvesting failed: database is locked'' \<rparr> \<and>
   \<not> error_set (harvester_execute example_str world_a (initial_state ''weekly'' None None 0)) \<and>
   error_set (diff_analyst_execute example_str
                (harvester_execute example_str world_a (initial_state ''weekly'' None None 0))) \<and>
   process_request example_str world_a mock_env ''weekly'' None None 0 =
     (initial_state ''weekly'' None None 0)
       \<lparr> raw_data := Some (bootstrap_stats one_repo 0 (\<lambda>k. 0)),
         error := Some ''Diff analysis failed: division by zero'' \<rparr> \<and>
   insight_narrator_execute example_str mock_env
     (diff_analyst_execute example_str
        (harvester_execute example_str world_a (initial_state ''weekly'' None None 0))) =
     diff_analyst_execute example_str
       (harvester_execute example_str world_a (initial_state ''weekly'' None None 0))"
proof -
  have a: "error_set (harvester_execute example_str down_world
                        (initial_state ''weekly'' None None 7))"
    by (simp add: harvest_down error_set_def)
  have b: "\<not> error_set (harvester_execute example_str world_a
                           (initial_state ''weekly'' None None 0))"
    unfolding harvest_zero_period by (simp add: error_set_def initial_state_def)
  have c: "error_set (diff_analyst_execute example_str
             (harvester_execute example_str world_a (initial_state ''weekly'' None None 0)))"
    by (simp add: harvest_zero_period analyst_zero_period error_set_def)
  show ?thesis
    using short_circuit[where str = example_str and env = mock_env and w = down_world
          and rt = "''weekly''" and tid = None and eid = None and tp = 7]
      short_circuit[where str = example_str and env = mock_env and w = world_a
          and rt = "''weekly''" and tid = None and eid = None and tp = 0] a b c
    by (simp add: harvest_down harvest_zero_period analyst_zero_period)
qed

end
